theory Spec2Isabelle
  imports Main "HOL-Library.Sublist" "HOL-Library.Multiset"
begin

section \<open>Strings\<close>

text \<open>
  A JavaScript string is a sequence of UTF-16 code units. The model keeps the code units
  as natural numbers, so that the white space of \<^verbatim>\<open>String.prototype.trim\<close>
  (which reaches beyond Latin-1) can be written down in full. \<open>lit\<close> turns a literal of
  the source into its code units.
\<close>

type_synonym jsstring = "nat list"

definition lit :: "string \<Rightarrow> jsstring" where
  "lit s = map of_char s"

text \<open>A template fragment \<^verbatim>\<open>'${s}'\<close>: the text between two single quotes (code unit 39).\<close>

definition quoted :: "jsstring \<Rightarrow> jsstring" where
  "quoted s = [39] @ s @ [39]"

text \<open>\<^verbatim>\<open>s.replace(/'/g, "''")\<close>: every single quote becomes two.\<close>

definition replace_quotes :: "jsstring \<Rightarrow> jsstring" where
  "replace_quotes s = concat (map (\<lambda>c. if c = 39 then [39, 39] else [c]) s)"

text \<open>
  The code units that \<^verbatim>\<open>trim\<close> removes: the WhiteSpace and LineTerminator
  productions of ECMAScript (TAB, LF, VT, FF, CR, SP, NBSP, U+1680, U+2000 to U+200A,
  U+2028, U+2029, U+202F, U+205F, U+3000, U+FEFF).
\<close>

definition is_js_space :: "nat \<Rightarrow> bool" where
  "is_js_space c \<longleftrightarrow>
     (9 \<le> c \<and> c \<le> 13) \<or> c = 32 \<or> c = 160 \<or> c = 5760 \<or> (8192 \<le> c \<and> c \<le> 8202) \<or>
     c = 8232 \<or> c = 8233 \<or> c = 8239 \<or> c = 8287 \<or> c = 12288 \<or> c = 65279"

definition trim :: "jsstring \<Rightarrow> jsstring" where
  "trim s = rev (dropWhile is_js_space (rev (dropWhile is_js_space s)))"

text \<open>Truthiness of an optional string: \<^verbatim>\<open>undefined\<close>, \<^verbatim>\<open>null\<close> and \<^verbatim>\<open>''\<close> are falsy.\<close>

fun truthy :: "jsstring option \<Rightarrow> bool" where
  "truthy None = False"
| "truthy (Some s) = (s \<noteq> [])"

text \<open>A value inside a template literal: \<^verbatim>\<open>null\<close> is printed as the text null.\<close>

fun template_str :: "jsstring option \<Rightarrow> jsstring" where
  "template_str None = lit ''null''"
| "template_str (Some s) = s"

text \<open>\<^verbatim>\<open>Array.prototype.join\<close> on strings.\<close>

fun join :: "jsstring \<Rightarrow> jsstring list \<Rightarrow> jsstring" where
  "join sep [] = []"
| "join sep [p] = p"
| "join sep (p # q # ps) = p @ sep @ join sep (q # ps)"

text \<open>\<^verbatim>\<open>COLORS[i]\<close>: reading an array past its end gives \<^verbatim>\<open>undefined\<close>.\<close>

definition nth_opt :: "'a list \<Rightarrow> nat \<Rightarrow> 'a option" where
  "nth_opt xs i = (if i < length xs then Some (xs ! i) else None)"

section \<open>Identifier validation\<close>

text \<open>
  \<^verbatim>\<open>const TUNNUS_RE = /^\d{5}:\d{3}:\d{4}$/\<close>. The expression is a sequence of
  single-character atoms between the two anchors; without the \<^verbatim>\<open>m\<close> flag the anchors
  are the two ends of the input, so the match consumes the whole string atom by atom.
\<close>

datatype atom = Digit | Chr nat

fun atom_matches :: "atom \<Rightarrow> nat \<Rightarrow> bool" where
  "atom_matches Digit c = (48 \<le> c \<and> c \<le> 57)"
| "atom_matches (Chr d) c = (c = d)"

fun match_anchored :: "atom list \<Rightarrow> jsstring \<Rightarrow> bool" where
  "match_anchored [] [] = True"
| "match_anchored [] (c # cs) = False"
| "match_anchored (a # as) [] = False"
| "match_anchored (a # as) (c # cs) = (atom_matches a c \<and> match_anchored as cs)"

definition TUNNUS_RE :: "atom list" where
  "TUNNUS_RE = replicate 5 Digit @ [Chr 58] @ replicate 3 Digit @ [Chr 58] @ replicate 4 Digit"

definition TUNNUS_RE_test :: "jsstring \<Rightarrow> bool" where
  "TUNNUS_RE_test s = match_anchored TUNNUS_RE s"

text \<open>
  The pattern in the words of the specification, \<^verbatim>\<open>NNNNN:NNN:NNNN\<close>: five, three and
  four decimal digits, separated by colons, and nothing else.
\<close>

definition is_digit :: "nat \<Rightarrow> bool" where
  "is_digit c \<longleftrightarrow> 48 \<le> c \<and> c \<le> 57"

definition tunnus_pattern :: "jsstring \<Rightarrow> bool" where
  "tunnus_pattern s \<longleftrightarrow>
     (\<exists>a b c. s = a @ [58] @ b @ [58] @ c \<and> length a = 5 \<and> length b = 3 \<and> length c = 4 \<and>
        list_all is_digit a \<and> list_all is_digit b \<and> list_all is_digit c)"

section \<open>Query builders\<close>

text \<open>
  A builder fills the search parameters of a \<^verbatim>\<open>URL\<close> object. The model returns that
  object (base address and ordered parameters) as it is before \<^verbatim>\<open>toString\<close>
  percent-encodes it. A value is stored as it is given; the replacement of an unpaired
  surrogate by U+FFFD is not modelled.
\<close>

record url =
  href :: jsstring
  searchParams :: "(jsstring \<times> jsstring) list"

definition WFS_URL :: jsstring where
  "WFS_URL = lit ''https://gsavalik.envir.ee/geoserver/kataster/wfs?''"

definition WFS_TYPENAME :: jsstring where
  "WFS_TYPENAME = lit ''kataster:ky_versioonid''"

definition new_URL :: "jsstring \<Rightarrow> url" where
  "new_URL a = \<lparr>href = a, searchParams = []\<rparr>"

text \<open>\<^verbatim>\<open>URLSearchParams.set\<close>: the first entry of that name takes the value, later
  ones are dropped, and a new name is appended.\<close>

fun params_set :: "jsstring \<Rightarrow> jsstring \<Rightarrow> (jsstring \<times> jsstring) list \<Rightarrow> (jsstring \<times> jsstring) list" where
  "params_set k v [] = [(k, v)]"
| "params_set k v (p # ps) =
     (if fst p = k then (k, v) # filter (\<lambda>q. fst q \<noteq> k) ps else p # params_set k v ps)"

definition set_param :: "url \<Rightarrow> string \<times> jsstring \<Rightarrow> url" where
  "set_param u kv = u\<lparr>searchParams := params_set (lit (fst kv)) (snd kv) (searchParams u)\<rparr>"

text \<open>\<^verbatim>\<open>URLSearchParams.get\<close>: the first value of that name.\<close>

definition get_param :: "string \<Rightarrow> url \<Rightarrow> jsstring option" where
  "get_param k u = map_of (searchParams u) (lit k)"

text \<open>The temporal predicate that three places of the source spell out the same way.\<close>

definition validity_predicate :: "jsstring \<Rightarrow> jsstring" where
  "validity_predicate d =
     lit ''kehtiv_alates <= '' @ quoted d @ lit '' AND (kehtiv_kuni IS NULL OR kehtiv_kuni > ''
       @ quoted d @ lit '')''"

definition buildWfsUrl :: "jsstring \<Rightarrow> jsstring option \<Rightarrow> url" where
  "buildWfsUrl tunnus date =
     (let safe = replace_quotes tunnus;
          cql = (case date of
                   Some d \<Rightarrow>
                     if d \<noteq> [] then lit ''tunnus = '' @ quoted safe @ lit '' AND '' @ validity_predicate d
                     else lit ''tunnus = '' @ quoted safe
                 | None \<Rightarrow> lit ''tunnus = '' @ quoted safe)
      in foldl set_param (new_URL WFS_URL)
           [(''service'', lit ''WFS''),
            (''version'', lit ''1.1.0''),
            (''request'', lit ''GetFeature''),
            (''typeName'', WFS_TYPENAME),
            (''outputFormat'', lit ''application/json''),
            (''srsName'', lit ''EPSG:3301''),
            (''propertyName'', lit ''tunnus,kehtiv_alates,kehtiv_kuni,omviis''),
            (''CQL_FILTER'', cql),
            (''sortBy'', lit ''kehtiv_alates D''),
            (''maxFeatures'', lit ''200'')])"

definition buildWfsUrl_fullByVersion :: "jsstring \<Rightarrow> jsstring option \<Rightarrow> jsstring option \<Rightarrow> url" where
  "buildWfsUrl_fullByVersion tunnus ka kk =
     (let safeT = replace_quotes tunnus;
          safeKa = (case ka of Some a \<Rightarrow> if a \<noteq> [] then replace_quotes a else [] | None \<Rightarrow> []);
          safeKk = (case kk of Some b \<Rightarrow> if b \<noteq> [] then replace_quotes b else [] | None \<Rightarrow> []);
          cql = (if truthy kk
                 then lit ''tunnus = '' @ quoted safeT @ lit '' AND kehtiv_alates = '' @ quoted safeKa
                        @ lit '' AND kehtiv_kuni = '' @ quoted safeKk
                 else lit ''tunnus = '' @ quoted safeT @ lit '' AND kehtiv_alates = '' @ quoted safeKa
                        @ lit '' AND kehtiv_kuni IS NULL'')
      in foldl set_param (new_URL WFS_URL)
           [(''service'', lit ''WFS''),
            (''version'', lit ''1.1.0''),
            (''request'', lit ''GetFeature''),
            (''typeName'', WFS_TYPENAME),
            (''outputFormat'', lit ''application/json''),
            (''srsName'', lit ''EPSG:3301''),
            (''CQL_FILTER'', cql)])"

definition buildWfsUrl_allProps :: "jsstring \<Rightarrow> url" where
  "buildWfsUrl_allProps tunnus =
     (let safe = replace_quotes tunnus
      in foldl set_param (new_URL WFS_URL)
           [(''service'', lit ''WFS''),
            (''version'', lit ''1.1.0''),
            (''request'', lit ''GetFeature''),
            (''typeName'', WFS_TYPENAME),
            (''outputFormat'', lit ''application/json''),
            (''srsName'', lit ''EPSG:3301''),
            (''CQL_FILTER'', lit ''tunnus = '' @ quoted safe),
            (''sortBy'', lit ''kehtiv_alates D''),
            (''maxFeatures'', lit ''200'')])"

text \<open>
  The point query prints the two coordinates into the filter. How JavaScript prints a
  number is not part of this program: the printer is the parameter \<open>num_str\<close>.
\<close>

definition buildWfsUrl_byPoint :: "('n \<Rightarrow> jsstring) \<Rightarrow> 'n \<Rightarrow> 'n \<Rightarrow> jsstring option \<Rightarrow> url" where
  "buildWfsUrl_byPoint num_str x y date =
     (let cqlParts = [lit ''INTERSECTS(geom,SRID=3301;POINT('' @ num_str x @ lit '' '' @ num_str y @ lit ''))''];
          cqlParts = (if truthy date then cqlParts @ [validity_predicate (template_str date)] else cqlParts)
      in foldl set_param (new_URL WFS_URL)
           [(''service'', lit ''WFS''),
            (''version'', lit ''1.1.0''),
            (''request'', lit ''GetFeature''),
            (''typeName'', WFS_TYPENAME),
            (''outputFormat'', lit ''application/json''),
            (''srsName'', lit ''EPSG:3301''),
            (''propertyName'', lit ''tunnus,kehtiv_alates,kehtiv_kuni''),
            (''CQL_FILTER'', join (lit '' AND '') cqlParts),
            (''sortBy'', lit ''kehtiv_alates D''),
            (''maxFeatures'', lit ''1'')])"

section \<open>Data of the viewer\<close>

text \<open>\<^verbatim>\<open>KyFeatureProps\<close>: one row of the feature service; \<open>None\<close> is \<^verbatim>\<open>null\<close>.\<close>

record row =
  tunnus :: jsstring
  kehtiv_alates :: "jsstring option"
  kehtiv_kuni :: "jsstring option"
  omviis :: "jsstring option"
  extra :: "(jsstring \<times> jsstring) list"

record wfsFeature =
  feature_id :: jsstring
  properties :: row

text \<open>\<^verbatim>\<open>WfsResponse\<close>; \<open>features = None\<close> is a document without that member.\<close>

record wfsResponse =
  features :: "wfsFeature list option"

text \<open>
  The messages the viewer shows. The source holds them as (Estonian) text; the model
  names them: the invalid-identifier hint of the search, \<^verbatim>\<open>WFS error ${status}\<close>, the
  no-geometry error, the message of a thrown \<^verbatim>\<open>Error\<close>, the two fallback texts for a
  thrown value that is no \<^verbatim>\<open>Error\<close>, and the toast of a third selection.
\<close>

datatype message =
    InvalidTunnus
  | WfsError nat
  | GeometryNotFound
  | ErrorMessage jsstring
  | SearchFailed
  | VersionLoadFailed
  | MaxTwoVersions

text \<open>What a rejected promise carries: an \<^verbatim>\<open>Error\<close> with its message, or anything else.\<close>

datatype thrown = ErrorObject jsstring | OtherValue

text \<open>\<^verbatim>\<open>e instanceof Error ? e.message : fallback\<close>\<close>

fun caught_message :: "thrown \<Rightarrow> message \<Rightarrow> message" where
  "caught_message (ErrorObject m) fallback = ErrorMessage m"
| "caught_message OtherValue fallback = fallback"

text \<open>
  The outcome of \<^verbatim>\<open>await fetch(url)\<close> followed by reading the body: the promise is
  rejected (network failure, or a body that cannot be read), the response is not
  \<^verbatim>\<open>ok\<close> and has a status, or the body has been read.
\<close>

datatype 'a fetched = Rejected thrown | NotOk nat | Body 'a

text \<open>
  A feature of the overlay source \<^verbatim>\<open>vecSrcRef\<close> with its two properties
  \<^verbatim>\<open>___key\<close> and \<^verbatim>\<open>___color\<close> (\<open>None\<close> while unset); \<open>'g\<close> is what
  \<^verbatim>\<open>GeoJSON.readFeatures\<close> made of the document.
\<close>

record 'g feature =
  f_key :: jsstring
  f_color :: "jsstring option"
  f_geom :: 'g

record drawer =
  dr_open :: bool
  dr_tunnus :: "jsstring option"
  dr_rows :: "row list option"

record 'g state =
  searchTerm :: jsstring
  asOf :: jsstring
  rows :: "row list"
  loading :: bool
  error :: "message option"
  popupData :: "jsstring option"
  selectedKeys :: "jsstring list"
  colorByKey :: "jsstring \<rightharpoonup> jsstring"
  drawer :: drawer
  toast :: "message option"
  vecSrc :: "'g feature list"

definition COLORS :: "jsstring list" where
  "COLORS = [lit ''#22c55e'', lit ''#3b82f6'']"

definition drawer_closed :: drawer where
  "drawer_closed = \<lparr>dr_open = False, dr_tunnus = None, dr_rows = None\<rparr>"

text \<open>The state of the first render; \<open>today\<close> is the date text the clock gave.\<close>

definition init :: "jsstring \<Rightarrow> 'g state" where
  "init today =
     \<lparr>searchTerm = [], asOf = today, rows = [], loading = False, error = None, popupData = None,
      selectedKeys = [], colorByKey = Map.empty, drawer = drawer_closed, toast = None, vecSrc = []\<rparr>"

section \<open>Sorting\<close>

text \<open>
  A comparator returns a JavaScript number: \<open>None\<close> is \<^verbatim>\<open>NaN\<close>. Time stamps are
  whole milliseconds, so their differences are exact. \<^verbatim>\<open>new Date(s).getTime()\<close>
  belongs to the platform and is the parameter \<open>getTime\<close> (\<open>None\<close> for an invalid date).
\<close>

fun num_sub :: "int option \<Rightarrow> int option \<Rightarrow> int option" where
  "num_sub (Some a) (Some b) = Some (a - b)"
| "num_sub _ _ = None"

text \<open>
  \<^verbatim>\<open>Array.prototype.sort\<close> is stable, and with a consistent comparator its result is
  fixed: it is modelled by insertion from the right, where an element moves behind the
  elements the comparator puts strictly before it (a positive result; \<^verbatim>\<open>NaN\<close> counts
  as zero). For a comparator that is not consistent the language leaves the order to the
  implementation; nothing below is proved about the order in that case.
\<close>

fun comes_after :: "int option \<Rightarrow> bool" where
  "comes_after (Some v) = (0 < v)"
| "comes_after None = False"

fun insert_js :: "('a \<Rightarrow> 'a \<Rightarrow> int option) \<Rightarrow> 'a \<Rightarrow> 'a list \<Rightarrow> 'a list" where
  "insert_js cmp x [] = [x]"
| "insert_js cmp x (y # ys) =
     (if comes_after (cmp x y) then y # insert_js cmp x ys else x # y # ys)"

fun sort_js :: "('a \<Rightarrow> 'a \<Rightarrow> int option) \<Rightarrow> 'a list \<Rightarrow> 'a list" where
  "sort_js cmp [] = []"
| "sort_js cmp (x # xs) = insert_js cmp x (sort_js cmp xs)"

text \<open>The comparator of the listing in \<^verbatim>\<open>doSearch\<close>.\<close>

definition listing_cmp :: "(jsstring \<Rightarrow> int option) \<Rightarrow> row \<Rightarrow> row \<Rightarrow> int option" where
  "listing_cmp getTime a b =
     (let aActive = (kehtiv_kuni a = None);
          bActive = (kehtiv_kuni b = None);
          byFrom = (case (kehtiv_alates a, kehtiv_alates b) of
                      (Some fa, Some fb) \<Rightarrow>
                        if fa \<noteq> [] \<and> fb \<noteq> [] then num_sub (getTime fb) (getTime fa) else Some 0
                    | _ \<Rightarrow> Some 0)
      in if aActive \<and> \<not> bActive then Some (- 1)
         else if \<not> aActive \<and> bActive then Some 1
         else (case (kehtiv_kuni a, kehtiv_kuni b) of
                 (Some ta, Some tb) \<Rightarrow>
                   if ta \<noteq> [] \<and> tb \<noteq> []
                   then (let diff = num_sub (getTime tb) (getTime ta)
                         in if diff \<noteq> Some 0 then diff else byFrom)
                   else byFrom
               | _ \<Rightarrow> byFrom))"

text \<open>The comparator of the detail rows in \<^verbatim>\<open>toggleVersion\<close>
  (\<^verbatim>\<open>kehtiv_alates ?? ''\<close>).\<close>

definition detail_cmp :: "(jsstring \<Rightarrow> int option) \<Rightarrow> row \<Rightarrow> row \<Rightarrow> int option" where
  "detail_cmp getTime a b =
     num_sub (getTime (case kehtiv_alates b of Some s \<Rightarrow> s | None \<Rightarrow> []))
             (getTime (case kehtiv_alates a of Some s \<Rightarrow> s | None \<Rightarrow> []))"

text \<open>\<^verbatim>\<open>(json.features || []).map(f => f.properties)\<close>\<close>

definition response_rows :: "wfsResponse \<Rightarrow> row list" where
  "response_rows json = (case features json of None \<Rightarrow> [] | Some fs \<Rightarrow> map properties fs)"

section \<open>Operations\<close>

text \<open>
  Every operation is one transition of the state: the asynchronous handler is taken to
  run to its end on the state it was called in, before the next one starts. The feature
  service is a function from the request to its outcome, chosen freely for each call.
  The map view (fitting to an extent) and the timer that hides the toast are outside
  the model: an exception thrown while fitting the view (lines 454 to 456), after both
  requests succeeded, would set an error message that the model does not set. The
  overlay source is a list of the features added to it; it does not drop a feature
  whose identifier is already present. Handlers that overlap in time, and the date
  handlers that search again before the new date is in the state, are not
  transitions of the model.
\<close>

text \<open>
  \<^verbatim>\<open>assignColors\<close>: the loop fills a new table by position (an assignment of
  \<^verbatim>\<open>undefined\<close> reads back as an absent entry), the table replaces
  \<^verbatim>\<open>colorByKey\<close>, and each stored feature whose key has a colour takes it.
\<close>

fun assign_loop :: "nat \<Rightarrow> jsstring list \<Rightarrow> (jsstring \<rightharpoonup> jsstring) \<Rightarrow> (jsstring \<rightharpoonup> jsstring)" where
  "assign_loop i [] next = next"
| "assign_loop i (k # ks) next = assign_loop (Suc i) ks (next(k := nth_opt COLORS i))"

definition push_color :: "(jsstring \<rightharpoonup> jsstring) \<Rightarrow> 'g feature \<Rightarrow> 'g feature" where
  "push_color next f =
     (if f_key f \<noteq> [] \<and> truthy (next (f_key f)) then f\<lparr>f_color := next (f_key f)\<rparr> else f)"

definition assignColors :: "jsstring list \<Rightarrow> 'g state \<Rightarrow> 'g state" where
  "assignColors keys s =
     (let next = assign_loop 0 keys Map.empty
      in s\<lparr>colorByKey := next, vecSrc := map (push_color next) (vecSrc s)\<rparr>)"

definition closePopup :: "'g state \<Rightarrow> 'g state" where
  "closePopup s = s\<lparr>popupData := None\<rparr>"

text \<open>\<^verbatim>\<open>asOf || undefined\<close>\<close>

definition date_arg :: "jsstring \<Rightarrow> jsstring option" where
  "date_arg d = (if d \<noteq> [] then Some d else None)"

definition handleMapClick ::
  "('n \<Rightarrow> jsstring) \<Rightarrow> (url \<Rightarrow> wfsResponse fetched) \<Rightarrow> 'n \<Rightarrow> 'n \<Rightarrow> 'g state \<Rightarrow> 'g state" where
  "handleMapClick num_str fetch x y s =
     (let s1 = closePopup s
      in case fetch (buildWfsUrl_byPoint num_str x y (date_arg (asOf s))) of
           Rejected e \<Rightarrow> s1
         | NotOk status \<Rightarrow> s1
         | Body json \<Rightarrow>
             (case features json of
                None \<Rightarrow> s1
              | Some [] \<Rightarrow> s1
              | Some (feat # rest) \<Rightarrow> s1\<lparr>popupData := Some (tunnus (properties feat))\<rparr>))"

definition doSearch ::
  "(jsstring \<Rightarrow> int option) \<Rightarrow> (url \<Rightarrow> wfsResponse fetched) \<Rightarrow> jsstring option \<Rightarrow> 'g state \<Rightarrow> 'g state" where
  "doSearch getTime fetch tunnusOverride s =
     (let q = trim (case tunnusOverride of Some t \<Rightarrow> t | None \<Rightarrow> searchTerm s);
          valid = TUNNUS_RE_test q;
          s1 = s\<lparr>error := None, rows := []\<rparr>
      in if \<not> valid then s1\<lparr>error := Some InvalidTunnus\<rparr>
         else (case fetch (buildWfsUrl q (date_arg (asOf s))) of
                 Rejected e \<Rightarrow> s1\<lparr>error := Some (caught_message e SearchFailed), loading := False\<rparr>
               | NotOk status \<Rightarrow> s1\<lparr>error := Some (WfsError status), loading := False\<rparr>
               | Body json \<Rightarrow>
                   s1\<lparr>rows := sort_js (listing_cmp getTime) (response_rows json), loading := False\<rparr>))"

text \<open>The key of a row: \<^verbatim>\<open>`${row.tunnus}|${row.kehtiv_alates}|${row.kehtiv_kuni}`\<close>\<close>

definition version_key :: "row \<Rightarrow> jsstring" where
  "version_key r =
     tunnus r @ lit ''|'' @ template_str (kehtiv_alates r) @ lit ''|'' @ template_str (kehtiv_kuni r)"

text \<open>The features read from the geometry document, tagged with the key, not yet coloured.\<close>

definition tagged :: "jsstring \<Rightarrow> 'g list \<Rightarrow> 'g feature list" where
  "tagged k feats = map (\<lambda>g. \<lparr>f_key = k, f_color = None, f_geom = g\<rparr>) feats"

definition toggleVersion ::
  "(jsstring \<Rightarrow> int option) \<Rightarrow> (url \<Rightarrow> 'g list fetched) \<Rightarrow> (url \<Rightarrow> wfsResponse fetched) \<Rightarrow>
     row \<Rightarrow> 'g state \<Rightarrow> 'g state" where
  "toggleVersion getTime fetchGeo fetchDet r s =
     (let k = version_key r;
          already = (k \<in> set (selectedKeys s))
      in if already then
           (let newKeys = filter (\<lambda>x. x \<noteq> k) (selectedKeys s);
                s1 = assignColors newKeys (s\<lparr>selectedKeys := newKeys\<rparr>);
                s2 = s1\<lparr>vecSrc := filter (\<lambda>f. f_key f \<noteq> k) (vecSrc s1)\<rparr>
            in if dr_open (drawer s) \<and> dr_tunnus (drawer s) = Some (tunnus r) \<and>
                  \<not> list_ex (prefix (tunnus r @ lit ''|'')) newKeys
               then s2\<lparr>drawer := drawer_closed\<rparr>
               else s2)
         else if length (selectedKeys s) \<ge> 2 then s\<lparr>toast := Some MaxTwoVersions\<rparr>
         else
           (case fetchGeo (buildWfsUrl_fullByVersion (tunnus r) (kehtiv_alates r) (kehtiv_kuni r)) of
              Rejected e \<Rightarrow> s\<lparr>error := Some (caught_message e VersionLoadFailed)\<rparr>
            | NotOk status \<Rightarrow> s\<lparr>error := Some (WfsError status)\<rparr>
            | Body feats \<Rightarrow>
                if feats = [] then s\<lparr>error := Some GeometryNotFound\<rparr>
                else
                  (let newKeys = selectedKeys s @ [k];
                       s1 = assignColors newKeys (s\<lparr>selectedKeys := newKeys\<rparr>);
                       s2 = s1\<lparr>vecSrc := vecSrc s1 @ tagged k feats\<rparr>
                   in case fetchDet (buildWfsUrl_allProps (tunnus r)) of
                        Rejected e \<Rightarrow> s2\<lparr>error := Some (caught_message e VersionLoadFailed)\<rparr>
                      | NotOk status \<Rightarrow> s2\<lparr>error := Some (WfsError status)\<rparr>
                      | Body detJson \<Rightarrow>
                          s2\<lparr>drawer := \<lparr>dr_open = True, dr_tunnus = Some (tunnus r),
                                         dr_rows = Some (sort_js (detail_cmp getTime) (response_rows detJson))\<rparr>\<rparr>)))"

definition clearSelections :: "'g state \<Rightarrow> 'g state" where
  "clearSelections s = s\<lparr>selectedKeys := [], colorByKey := Map.empty, vecSrc := [], drawer := drawer_closed\<rparr>"

text \<open>What the user can do, each with the outcomes of the requests it makes.\<close>

datatype ('g, 'n) action =
    SetTerm jsstring
  | SetAsOf jsstring
  | Search "jsstring option" "url \<Rightarrow> wfsResponse fetched"
  | MapClick 'n 'n "url \<Rightarrow> wfsResponse fetched"
  | Toggle row "url \<Rightarrow> 'g list fetched" "url \<Rightarrow> wfsResponse fetched"
  | Clear

fun step ::
  "(jsstring \<Rightarrow> int option) \<Rightarrow> ('n \<Rightarrow> jsstring) \<Rightarrow> 'g state \<Rightarrow> ('g, 'n) action \<Rightarrow> 'g state" where
  "step getTime num_str s (SetTerm t) = s\<lparr>searchTerm := t\<rparr>"
| "step getTime num_str s (SetAsOf d) = s\<lparr>asOf := d\<rparr>"
| "step getTime num_str s (Search ov fetch) = doSearch getTime fetch ov s"
| "step getTime num_str s (MapClick x y fetch) = handleMapClick num_str fetch x y s"
| "step getTime num_str s (Toggle r fetchGeo fetchDet) = toggleVersion getTime fetchGeo fetchDet r s"
| "step getTime num_str s Clear = clearSelections s"

definition run ::
  "(jsstring \<Rightarrow> int option) \<Rightarrow> ('n \<Rightarrow> jsstring) \<Rightarrow> ('g, 'n) action list \<Rightarrow> 'g state \<Rightarrow> 'g state" where
  "run getTime num_str acts s = foldl (step getTime num_str) s acts"

text \<open>
  The selection of a state as the claims speak of it: the selected keys, the colour
  table, the keys with a geometry in the overlay, and the drawer.
\<close>

definition overlay_keys :: "'g state \<Rightarrow> jsstring set" where
  "overlay_keys s = f_key ` set (vecSrc s)"

definition same_selection :: "'g state \<Rightarrow> 'g state \<Rightarrow> bool" where
  "same_selection s t \<longleftrightarrow>
     selectedKeys s = selectedKeys t \<and> colorByKey s = colorByKey t \<and> vecSrc s = vecSrc t \<and>
     drawer s = drawer t"

text \<open>
  What ties the parts of the selection together: the keys are distinct and at most two,
  the colour table is the one \<^verbatim>\<open>assignColors\<close> computes from them, and the overlay
  holds geometry for exactly the selected keys.
\<close>

definition consistent :: "'g state \<Rightarrow> bool" where
  "consistent s \<longleftrightarrow>
     distinct (selectedKeys s) \<and> length (selectedKeys s) \<le> 2 \<and>
     colorByKey s = assign_loop 0 (selectedKeys s) Map.empty \<and>
     overlay_keys s = set (selectedKeys s)"

text \<open>The request for the geometry of a row, as \<^verbatim>\<open>toggleVersion\<close> builds it.\<close>

definition geometry_request :: "row \<Rightarrow> url" where
  "geometry_request r = buildWfsUrl_fullByVersion (tunnus r) (kehtiv_alates r) (kehtiv_kuni r)"

section \<open>The listing order of the specification\<close>






section \<open>The date of the first render\<close>

text \<open>
  \<^verbatim>\<open>const d = new Date(); d.setMinutes(d.getMinutes() - d.getTimezoneOffset());
  return d.toISOString().slice(0, 10)\<close>. The clock gives a time value, whole milliseconds
  since the epoch. The zone of the host is the function \<open>LocalTZA\<close> of the language
  standard: the offset of local time in milliseconds, asked for a UTC instant (\<open>True\<close>)
  or for a local time value (\<open>False\<close>). The methods of \<^verbatim>\<open>Date\<close> are written out
  as the standard defines them.
\<close>

definition msPerDay :: int where
  "msPerDay = 86400000"

definition Day :: "int \<Rightarrow> int" where
  "Day t = t div msPerDay"

definition HourFromTime :: "int \<Rightarrow> int" where
  "HourFromTime t = (t div 3600000) mod 24"

definition MinFromTime :: "int \<Rightarrow> int" where
  "MinFromTime t = (t div 60000) mod 60"

definition SecFromTime :: "int \<Rightarrow> int" where
  "SecFromTime t = (t div 1000) mod 60"

definition msFromTime :: "int \<Rightarrow> int" where
  "msFromTime t = t mod 1000"

definition MakeTime :: "int \<Rightarrow> int \<Rightarrow> int \<Rightarrow> int \<Rightarrow> int" where
  "MakeTime hour m sec ms = hour * 3600000 + m * 60000 + sec * 1000 + ms"

definition MakeDate :: "int \<Rightarrow> int \<Rightarrow> int" where
  "MakeDate day time = day * msPerDay + time"

text \<open>\<open>None\<close> is \<^verbatim>\<open>NaN\<close>, the invalid date.\<close>

definition TimeClip :: "int \<Rightarrow> int option" where
  "TimeClip t = (if 8640000000000000 < \<bar>t\<bar> then None else Some t)"

definition LocalTime :: "(int \<Rightarrow> bool \<Rightarrow> int) \<Rightarrow> int \<Rightarrow> int" where
  "LocalTime LocalTZA t = t + LocalTZA t True"

definition UTC :: "(int \<Rightarrow> bool \<Rightarrow> int) \<Rightarrow> int \<Rightarrow> int" where
  "UTC LocalTZA t = t - LocalTZA t False"

definition DayFromYear :: "int \<Rightarrow> int" where
  "DayFromYear y =
     365 * (y - 1970) + (y - 1969) div 4 - (y - 1901) div 100 + (y - 1601) div 400"

text \<open>
  \<open>YearFromTime\<close> is the largest year that starts on or before the day of the time
  value. It is found from an estimate, by stepping down to a year that starts on or
  before the day and then up while the next year does.
\<close>

function year_down :: "int \<Rightarrow> int \<Rightarrow> int" where
  "year_down y d = (if DayFromYear y \<le> d then y else year_down (y - 1) d)"
  by pat_completeness auto
termination
proof (relation "measure (\<lambda>(y, d). nat (DayFromYear y - d))")
  show "wf (measure (\<lambda>(y, d). nat (DayFromYear y - d)))"
    by simp
next
  fix y d :: int
  assume a: "\<not> DayFromYear y \<le> d"
  have down: "(x - 1) div c \<le> x div c" if "0 < c" for x c :: int
    using that by (intro zdiv_mono1) simp_all
  have up: "x div c \<le> (x - 1) div c + 1" if "0 < c" for x c :: int
  proof -
    have "x div c \<le> (x - 1 + c) div c"
      using that by (intro zdiv_mono1) simp_all
    also have "\<dots> = (x - 1) div c + 1"
      by (rule div_add_self2) (use that in simp)
    finally show ?thesis .
  qed
  have 1: "(y - 1 - 1969) div 4 \<le> (y - 1969) div 4"
    using down[of 4 "y - 1969"] by (simp add: algebra_simps)
  have 2: "(y - 1901) div 100 \<le> (y - 1 - 1901) div 100 + 1"
    using up[of 100 "y - 1901"] by (simp add: algebra_simps)
  have 3: "(y - 1 - 1601) div 400 \<le> (y - 1601) div 400"
    using down[of 400 "y - 1601"] by (simp add: algebra_simps)
  have sum: "365 * (y - 1 - 1970) + p' - q' + r' < 365 * (y - 1970) + p - q + r"
    if "p' \<le> p" "q \<le> q' + 1" "r' \<le> r" for p q r p' q' r' :: int
    using that by (simp add: algebra_simps)
  have "DayFromYear (y - 1) < DayFromYear y"
    unfolding DayFromYear_def by (rule sum[OF 1 2 3])
  with a show "((y - 1, d), (y, d)) \<in> measure (\<lambda>(y, d). nat (DayFromYear y - d))"
    by simp
qed

function year_up :: "int \<Rightarrow> int \<Rightarrow> int" where
  "year_up y d = (if DayFromYear (y + 1) \<le> d then year_up (y + 1) d else y)"
  by pat_completeness auto
termination
proof (relation "measure (\<lambda>(y, d). nat (d + 1 - DayFromYear (y + 1)))")
  show "wf (measure (\<lambda>(y, d). nat (d + 1 - DayFromYear (y + 1))))"
    by simp
next
  fix y d :: int
  assume a: "DayFromYear (y + 1) \<le> d"
  have down: "(x - 1) div c \<le> x div c" if "0 < c" for x c :: int
    using that by (intro zdiv_mono1) simp_all
  have up: "x div c \<le> (x - 1) div c + 1" if "0 < c" for x c :: int
  proof -
    have "x div c \<le> (x - 1 + c) div c"
      using that by (intro zdiv_mono1) simp_all
    also have "\<dots> = (x - 1) div c + 1"
      by (rule div_add_self2) (use that in simp)
    finally show ?thesis .
  qed
  define z where "z = y + 1 + 1"
  have 1: "(z - 1 - 1969) div 4 \<le> (z - 1969) div 4"
    using down[of 4 "z - 1969"] by (simp add: algebra_simps)
  have 2: "(z - 1901) div 100 \<le> (z - 1 - 1901) div 100 + 1"
    using up[of 100 "z - 1901"] by (simp add: algebra_simps)
  have 3: "(z - 1 - 1601) div 400 \<le> (z - 1601) div 400"
    using down[of 400 "z - 1601"] by (simp add: algebra_simps)
  have sum: "365 * (z - 1 - 1970) + p' - q' + r' < 365 * (z - 1970) + p - q + r"
    if "p' \<le> p" "q \<le> q' + 1" "r' \<le> r" for p q r p' q' r' :: int
    using that by (simp add: algebra_simps)
  have "DayFromYear (z - 1) < DayFromYear z"
    unfolding DayFromYear_def by (rule sum[OF 1 2 3])
  then have "DayFromYear (y + 1) < DayFromYear (y + 1 + 1)"
    unfolding z_def by (simp only: add_diff_cancel_right')
  with a have "nat (d + 1 - DayFromYear (y + 1 + 1)) < nat (d + 1 - DayFromYear (y + 1))"
    by linarith
  then show "((y + 1, d), (y, d)) \<in> measure (\<lambda>(y, d). nat (d + 1 - DayFromYear (y + 1)))"
    by simp
qed

declare year_down.simps [simp del]

declare year_up.simps [simp del]

definition YearFromTime :: "int \<Rightarrow> int" where
  "YearFromTime t = year_up (year_down (1970 + Day t div 365) (Day t)) (Day t)"

definition InLeapYear :: "int \<Rightarrow> int" where
  "InLeapYear t =
     (let y = YearFromTime t
      in if y mod 4 \<noteq> 0 then 0 else if y mod 100 \<noteq> 0 then 1 else if y mod 400 \<noteq> 0 then 0 else 1)"

definition DayWithinYear :: "int \<Rightarrow> int" where
  "DayWithinYear t = Day t - DayFromYear (YearFromTime t)"

definition MonthFromTime :: "int \<Rightarrow> int" where
  "MonthFromTime t =
     (let d = DayWithinYear t; l = InLeapYear t
      in if d < 31 then 0 else if d < 59 + l then 1 else if d < 90 + l then 2
         else if d < 120 + l then 3 else if d < 151 + l then 4 else if d < 181 + l then 5
         else if d < 212 + l then 6 else if d < 243 + l then 7 else if d < 273 + l then 8
         else if d < 304 + l then 9 else if d < 334 + l then 10 else 11)"

definition DateFromTime :: "int \<Rightarrow> int" where
  "DateFromTime t =
     (let d = DayWithinYear t; l = InLeapYear t; m = MonthFromTime t
      in if m = 0 then d + 1 else if m = 1 then d - 30 else if m = 2 then d - 58 - l
         else if m = 3 then d - 89 - l else if m = 4 then d - 119 - l else if m = 5 then d - 150 - l
         else if m = 6 then d - 180 - l else if m = 7 then d - 211 - l else if m = 8 then d - 242 - l
         else if m = 9 then d - 272 - l else if m = 10 then d - 303 - l else d - 333 - l)"

text \<open>Decimal digits as code units, and the fields of \<^verbatim>\<open>toISOString\<close>: a year from
  0 to 9999 has four digits, any other year a sign and six.\<close>

definition dec_digit :: "int \<Rightarrow> int \<Rightarrow> nat" where
  "dec_digit n k = 48 + nat ((n div k) mod 10)"

definition two_digits :: "int \<Rightarrow> jsstring" where
  "two_digits n = [dec_digit n 10, dec_digit n 1]"

definition three_digits :: "int \<Rightarrow> jsstring" where
  "three_digits n = [dec_digit n 100, dec_digit n 10, dec_digit n 1]"

definition four_digits :: "int \<Rightarrow> jsstring" where
  "four_digits n = [dec_digit n 1000, dec_digit n 100, dec_digit n 10, dec_digit n 1]"

definition year_text :: "int \<Rightarrow> jsstring" where
  "year_text y =
     (if 0 \<le> y \<and> y \<le> 9999 then four_digits y
      else (if y < 0 then lit ''-'' else lit ''+'') @ two_digits (\<bar>y\<bar> div 10000) @ four_digits \<bar>y\<bar>)"

definition toISOString :: "int \<Rightarrow> jsstring" where
  "toISOString t =
     year_text (YearFromTime t) @ lit ''-'' @ two_digits (MonthFromTime t + 1) @ lit ''-'' @
     two_digits (DateFromTime t) @ lit ''T'' @ two_digits (HourFromTime t) @ lit '':'' @
     two_digits (MinFromTime t) @ lit '':'' @ two_digits (SecFromTime t) @ lit ''.'' @
     three_digits (msFromTime t) @ lit ''Z''"

text \<open>The integral part of the quotient \<open>n / k\<close>, rounded towards zero, as
  \<^verbatim>\<open>setMinutes\<close> takes the integral part of its argument.\<close>

definition to_integer :: "int \<Rightarrow> int \<Rightarrow> int" where
  "to_integer n k = (if 0 \<le> n then n div k else - ((- n) div k))"

text \<open>
  The initial value of \<^verbatim>\<open>asOf\<close> for the clock reading \<open>now\<close>.
  \<^verbatim>\<open>getTimezoneOffset()\<close> is \<open>(now - LocalTime now) / 60000\<close> minutes, so the
  argument of \<^verbatim>\<open>setMinutes\<close> is \<open>(MinFromTime t * 60000 - (now - t)) / 60000\<close>
  (the quotient is kept exact, as it is in floating point for an offset of whole minutes);
  \<^verbatim>\<open>setMinutes\<close> rebuilds the local time with the new minutes and takes it back
  to UTC with the offset of that local time. \<open>None\<close>: the date became invalid and
  \<^verbatim>\<open>toISOString\<close> throws.
\<close>

definition initial_asOf :: "(int \<Rightarrow> bool \<Rightarrow> int) \<Rightarrow> int \<Rightarrow> jsstring option" where
  "initial_asOf LocalTZA now =
     (let t = LocalTime LocalTZA now;
          offset_ms = now - t;
          m = to_integer (MinFromTime t * 60000 - offset_ms) 60000;
          date = MakeDate (Day t) (MakeTime (HourFromTime t) m (SecFromTime t) (msFromTime t))
      in case TimeClip (UTC LocalTZA date) of
           None \<Rightarrow> None
         | Some u \<Rightarrow> Some (take 10 (toISOString u)))"

definition startup :: "(int \<Rightarrow> bool \<Rightarrow> int) \<Rightarrow> int \<Rightarrow> 'g state option" where
  "startup LocalTZA now = map_option init (initial_asOf LocalTZA now)"

text \<open>The local calendar date of the clock reading, as \<^verbatim>\<open>YYYY-MM-DD\<close>: the year,
  month and day of the local time value.\<close>

definition local_date_text :: "(int \<Rightarrow> bool \<Rightarrow> int) \<Rightarrow> int \<Rightarrow> jsstring" where
  "local_date_text LocalTZA now =
     (let t = LocalTime LocalTZA now
      in four_digits (YearFromTime t) @ lit ''-'' @ two_digits (MonthFromTime t + 1) @ lit ''-'' @
         two_digits (DateFromTime t))"

text \<open>The filter the effect on \<^verbatim>\<open>asOf\<close> gives the cadastre layer
  (\<open>None\<close> is \<^verbatim>\<open>undefined\<close>).\<close>

definition cad_filter :: "jsstring \<Rightarrow> jsstring option" where
  "cad_filter d = (if d \<noteq> [] then Some (validity_predicate d) else None)"

section \<open>Example inputs\<close>

text \<open>
  Concrete rows, clock readings and service outcomes on which the theorems below are
  run. The time stamps are the milliseconds of midnight UTC of the three dates.
\<close>

definition ex_getTime :: "jsstring \<Rightarrow> int option" where
  "ex_getTime s =
     (if s = lit ''2019-01-01'' then Some 1546300800000
      else if s = lit ''2020-01-01'' then Some 1577836800000
      else if s = lit ''2021-06-01'' then Some 1622505600000
      else None)"

text \<open>Whole coordinates print as decimal digits.\<close>

fun ex_num_str :: "nat \<Rightarrow> jsstring" where
  "ex_num_str n = (if n < 10 then [48 + n] else ex_num_str (n div 10) @ [48 + n mod 10])"

definition row_old :: row where
  "row_old = \<lparr>tunnus = lit ''79501:027:0011'', kehtiv_alates = Some (lit ''2019-01-01''),
              kehtiv_kuni = Some (lit ''2020-01-01''), omviis = None, extra = []\<rparr>"

definition row_mid :: row where
  "row_mid = \<lparr>tunnus = lit ''79501:027:0011'', kehtiv_alates = Some (lit ''2019-01-01''),
              kehtiv_kuni = Some (lit ''2021-06-01''), omviis = None, extra = []\<rparr>"


definition row_active :: row where
  "row_active = \<lparr>tunnus = lit ''79501:027:0011'', kehtiv_alates = Some (lit ''2021-06-01''),
                 kehtiv_kuni = None, omviis = None, extra = []\<rparr>"

definition geo_one :: "url \<Rightarrow> nat list fetched" where
  "geo_one u = Body [7]"

definition geo_none :: "url \<Rightarrow> nat list fetched" where
  "geo_none u = Body []"

definition geo_down :: "url \<Rightarrow> nat list fetched" where
  "geo_down u = NotOk 503"

definition det_all :: "url \<Rightarrow> wfsResponse fetched" where
  "det_all u = Body \<lparr>features = Some [\<lparr>feature_id = lit ''ky.1'', properties = row_active\<rparr>,
                                        \<lparr>feature_id = lit ''ky.2'', properties = row_old\<rparr>]\<rparr>"

definition det_down :: "url \<Rightarrow> wfsResponse fetched" where
  "det_down u = NotOk 500"

definition det_unreachable :: "url \<Rightarrow> wfsResponse fetched" where
  "det_unreachable u = Rejected (ErrorObject (lit ''Failed to fetch''))"

definition point_miss :: "url \<Rightarrow> wfsResponse fetched" where
  "point_miss u = Body \<lparr>features = Some []\<rparr>"


definition point_hit :: "url \<Rightarrow> wfsResponse fetched" where
  "point_hit u = Body \<lparr>features = Some [\<lparr>feature_id = lit ''ky.2'', properties = row_old\<rparr>]\<rparr>"


text \<open>
  The zone of Auckland around the start of daylight saving time in 2024: twelve hours
  ahead of UTC until 2024-09-28T14:00:00Z (02:00 local time on the 29th), thirteen hours
  from then on. A local time in the hour that the clocks skip takes the offset from
  before the change.
\<close>

definition auckland_2024 :: "int \<Rightarrow> bool \<Rightarrow> int" where
  "auckland_2024 t isUTC =
     (if isUTC then (if t < 1727532000000 then 43200000 else 46800000)
      else (if t < 1727532000000 + 46800000 then 43200000 else 46800000))"

text \<open>The state after selecting the old and then the active version.\<close>

definition two_selected :: "nat state" where
  "two_selected =
     run ex_getTime ex_num_str [Toggle row_old geo_one det_all, Toggle row_active geo_one det_all] (init [])"

section \<open>Literals and request parameters\<close>

lemma lit_eq_iff: "lit a = lit b \<longleftrightarrow> a = b"
  by (simp add: lit_def inj_map_eq_map inj_on_def)

lemma lit_empty_iff: "lit s = [] \<longleftrightarrow> s = []"
  by (simp add: lit_def)

lemma get_param_set_same: "get_param k (set_param u (k, v)) = Some v"
proof -
  have "map_of (params_set a v ps) a = Some v" for a ps
    by (induction ps) auto
  then show ?thesis by (simp add: get_param_def set_param_def)
qed

lemma get_param_set_other: "k \<noteq> k' \<Longrightarrow> get_param k (set_param u (k', v)) = get_param k u"
proof -
  assume ne: "k \<noteq> k'"
  have "a \<noteq> b \<Longrightarrow> map_of (params_set b v ps) a = map_of ps a" for a b ps
  proof (induction ps)
    case Nil then show ?case by simp
  next
    case (Cons p ps)
    have "map_of (filter (\<lambda>q. fst q \<noteq> b) ps) a = map_of ps a" using Cons.prems
      by (induction ps) auto
    with Cons show ?case by auto
  qed
  with ne show ?thesis by (simp add: get_param_def set_param_def lit_eq_iff)
qed

lemma buildWfsUrl_cql:
  "get_param ''CQL_FILTER'' (buildWfsUrl t date) =
     Some (if truthy date then lit ''tunnus = '' @ quoted (replace_quotes t) @ lit '' AND '' @ validity_predicate (the date)
           else lit ''tunnus = '' @ quoted (replace_quotes t))"
  by (cases date) (simp_all add: buildWfsUrl_def Let_def get_param_set_same get_param_set_other)

lemma buildWfsUrl_byPoint_cql:
  "get_param ''CQL_FILTER'' (buildWfsUrl_byPoint ns x y date) =
     Some (if truthy date then lit ''INTERSECTS(geom,SRID=3301;POINT('' @ ns x @ lit '' '' @ ns y @ lit ''))'' @ lit '' AND '' @ validity_predicate (the date)
           else lit ''INTERSECTS(geom,SRID=3301;POINT('' @ ns x @ lit '' '' @ ns y @ lit ''))'')"
  by (cases date) (simp_all add: buildWfsUrl_byPoint_def Let_def get_param_set_same get_param_set_other)

lemma buildWfsUrl_fullByVersion_cql:
  "get_param ''CQL_FILTER'' (buildWfsUrl_fullByVersion t ka kk) =
     Some (lit ''tunnus = '' @ quoted (replace_quotes t) @ lit '' AND kehtiv_alates = '' @
           quoted (if truthy ka then replace_quotes (the ka) else []) @
           (if truthy kk then lit '' AND kehtiv_kuni = '' @ quoted (replace_quotes (the kk)) else lit '' AND kehtiv_kuni IS NULL''))"
  by (cases ka; cases kk) (simp_all add: buildWfsUrl_fullByVersion_def Let_def get_param_set_same get_param_set_other)

lemma buildWfsUrl_allProps_cql:
  "get_param ''CQL_FILTER'' (buildWfsUrl_allProps t) = Some (lit ''tunnus = '' @ quoted (replace_quotes t))"
  by (simp add: buildWfsUrl_allProps_def Let_def get_param_set_same get_param_set_other)

section \<open>The identifier pattern\<close>

lemma match_anchored_all2: "match_anchored as s \<longleftrightarrow> list_all2 atom_matches as s"
  by (induction as s rule: match_anchored.induct) auto

lemma all2_digits: "list_all2 atom_matches (replicate n Digit) s \<longleftrightarrow> length s = n \<and> list_all is_digit s"
proof (induction s arbitrary: n)
  case Nil then show ?case by auto
next
  case (Cons c cs)
  show ?case
  proof (cases n)
    case 0 then show ?thesis by simp
  next
    case (Suc m)
    with Cons[of m] show ?thesis by (auto simp: is_digit_def)
  qed
qed

lemma all2_colon: "list_all2 atom_matches [Chr 58] s \<longleftrightarrow> s = [58]"
  by (cases s) (auto simp: list_all2_Cons1)

lemma TUNNUS_RE_test_pattern: "TUNNUS_RE_test s \<longleftrightarrow> tunnus_pattern s"
proof
  assume "TUNNUS_RE_test s"
  then have "list_all2 atom_matches (replicate 5 Digit @ ([Chr 58] @ (replicate 3 Digit @ ([Chr 58] @ replicate 4 Digit)))) s"
    by (simp add: TUNNUS_RE_test_def TUNNUS_RE_def match_anchored_all2)
  then obtain a r1 where 1: "s = a @ r1" "list_all2 atom_matches (replicate 5 Digit) a"
      "list_all2 atom_matches ([Chr 58] @ (replicate 3 Digit @ ([Chr 58] @ replicate 4 Digit))) r1"
    unfolding list_all2_append1 by blast
  from 1(3) obtain c1 r2 where 2: "r1 = c1 @ r2" "list_all2 atom_matches [Chr 58] c1"
      "list_all2 atom_matches (replicate 3 Digit @ ([Chr 58] @ replicate 4 Digit)) r2"
    unfolding list_all2_append1 by blast
  from 2(3) obtain b r3 where 3: "r2 = b @ r3" "list_all2 atom_matches (replicate 3 Digit) b"
      "list_all2 atom_matches ([Chr 58] @ replicate 4 Digit) r3"
    unfolding list_all2_append1 by blast
  from 3(3) obtain c2 c where 4: "r3 = c2 @ c" "list_all2 atom_matches [Chr 58] c2"
      "list_all2 atom_matches (replicate 4 Digit) c"
    unfolding list_all2_append1 by blast
  from 1 2 3 4 have "s = a @ [58] @ b @ [58] @ c" by (simp add: all2_colon)
  moreover from 1(2) 3(2) 4(3) have "length a = 5" "length b = 3" "length c = 4"
      "list_all is_digit a" "list_all is_digit b" "list_all is_digit c"
    by (simp_all add: all2_digits)
  ultimately show "tunnus_pattern s" unfolding tunnus_pattern_def by blast
next
  assume "tunnus_pattern s"
  then obtain a b c where s: "s = a @ [58] @ b @ [58] @ c" and l: "length a = 5" "length b = 3" "length c = 4"
     and d: "list_all is_digit a" "list_all is_digit b" "list_all is_digit c"
    unfolding tunnus_pattern_def by blast
  have "list_all2 atom_matches (replicate 5 Digit @ [Chr 58] @ replicate 3 Digit @ [Chr 58] @ replicate 4 Digit) (a @ [58] @ b @ [58] @ c)"
    using l d by (intro list_all2_appendI) (simp_all add: all2_digits)
  then show "TUNNUS_RE_test s" by (simp add: TUNNUS_RE_test_def TUNNUS_RE_def match_anchored_all2 s)
qed

lemma caught_not_invalid: "caught_message e SearchFailed \<noteq> InvalidTunnus"
  by (cases e) simp_all

lemma trim_empty: "trim [] = []"
  by (simp add: trim_def)

section \<open>One toggle\<close>

lemma f_key_push_color: "f_key (push_color next f) = f_key f"
  by (simp add: push_color_def)

lemma overlay_keys_map_push: "f_key ` push_color next ` set fs = f_key ` set fs"
  by (simp add: image_image f_key_push_color)

lemma toggle_remove:
  assumes "version_key r \<in> set (selectedKeys s)"
  shows "selectedKeys (toggleVersion gt fg fd r s) = filter (\<lambda>x. x \<noteq> version_key r) (selectedKeys s)"
    and "colorByKey (toggleVersion gt fg fd r s) =
           assign_loop 0 (filter (\<lambda>x. x \<noteq> version_key r) (selectedKeys s)) Map.empty"
    and "vecSrc (toggleVersion gt fg fd r s) =
           filter (\<lambda>f. f_key f \<noteq> version_key r)
             (map (push_color (assign_loop 0 (filter (\<lambda>x. x \<noteq> version_key r) (selectedKeys s)) Map.empty))
                (vecSrc s))"
    and "error (toggleVersion gt fg fd r s) = error s"
  using assms
  by (simp_all add: toggleVersion_def Let_def assignColors_def)

lemma overlay_keys_filter:
  "f_key ` set (filter (\<lambda>f. f_key f \<noteq> k) (map (push_color nx) fs)) = f_key ` set fs - {k}"
  by (induction fs) (auto simp: f_key_push_color)

lemma toggle_remove_overlay:
  assumes "version_key r \<in> set (selectedKeys s)"
  shows "overlay_keys (toggleVersion gt fg fd r s) = overlay_keys s - {version_key r}"
  unfolding overlay_keys_def toggle_remove(3)[OF assms]
  by (rule overlay_keys_filter)

lemma toggle_full:
  assumes "version_key r \<notin> set (selectedKeys s)" "2 \<le> length (selectedKeys s)"
  shows "toggleVersion gt fg fd r s = s\<lparr>toast := Some MaxTwoVersions\<rparr>"
  using assms by (simp add: toggleVersion_def Let_def)

lemma toggle_add_failed:
  assumes "version_key r \<notin> set (selectedKeys s)" "length (selectedKeys s) < 2"
    and "fg (geometry_request r) = Rejected e \<or> fg (geometry_request r) = NotOk st \<or>
         fg (geometry_request r) = Body []"
  shows "\<exists>m. toggleVersion gt fg fd r s = s\<lparr>error := Some m\<rparr>"
  using assms by (auto simp: toggleVersion_def Let_def geometry_request_def)

lemma toggle_add_ok:
  assumes "version_key r \<notin> set (selectedKeys s)" "length (selectedKeys s) < 2"
    and "fg (geometry_request r) = Body feats" "feats \<noteq> []"
  shows "selectedKeys (toggleVersion gt fg fd r s) = selectedKeys s @ [version_key r]"
    and "colorByKey (toggleVersion gt fg fd r s) =
           assign_loop 0 (selectedKeys s @ [version_key r]) Map.empty"
    and "vecSrc (toggleVersion gt fg fd r s) =
           map (push_color (assign_loop 0 (selectedKeys s @ [version_key r]) Map.empty)) (vecSrc s)
             @ tagged (version_key r) feats"
  using assms
  by (simp_all add: toggleVersion_def Let_def assignColors_def geometry_request_def
        split: fetched.splits)

lemma overlay_keys_tagged: "feats \<noteq> [] \<Longrightarrow> f_key ` set (tagged k feats) = {k}"
  by (cases feats) (auto simp: tagged_def)

lemma toggle_add_overlay:
  assumes "version_key r \<notin> set (selectedKeys s)" "length (selectedKeys s) < 2"
    and "fg (geometry_request r) = Body feats" "feats \<noteq> []"
  shows "overlay_keys (toggleVersion gt fg fd r s) = insert (version_key r) (overlay_keys s)"
  unfolding overlay_keys_def toggle_add_ok(3)[where fg=fg, OF assms]
  by (simp add: image_Un overlay_keys_map_push overlay_keys_tagged[OF assms(4)])

lemma toggle_add_partial:
  assumes "version_key r \<notin> set (selectedKeys s)" "length (selectedKeys s) < 2"
    and "fg (geometry_request r) = Body feats" "feats \<noteq> []"
    and "fd (buildWfsUrl_allProps (tunnus r)) = Rejected e \<or> fd (buildWfsUrl_allProps (tunnus r)) = NotOk st"
  shows "drawer (toggleVersion gt fg fd r s) = drawer s"
    and "error (toggleVersion gt fg fd r s) \<noteq> None"
  using assms
  by (auto simp: toggleVersion_def Let_def assignColors_def geometry_request_def)

lemma consistent_toggle:
  assumes "consistent s"
  shows "consistent (toggleVersion gt fg fd r s)"
proof (cases "version_key r \<in> set (selectedKeys s)")
  case True
  note rm = toggle_remove[OF True] toggle_remove_overlay[OF True]
  from assms have "length (selectedKeys s) \<le> 2"
    by (simp add: consistent_def)
  then have "length (filter (\<lambda>x. x \<noteq> version_key r) (selectedKeys s)) \<le> 2"
    by (rule order_trans[OF length_filter_le])
  with assms show ?thesis
    by (auto simp: consistent_def rm)
next
  case out: False
  show ?thesis
  proof (cases "2 \<le> length (selectedKeys s)")
    case True
    with out assms show ?thesis by (simp add: toggle_full consistent_def overlay_keys_def)
  next
    case False
    then have lt: "length (selectedKeys s) < 2" by simp
    show ?thesis
    proof (cases "fg (geometry_request r)")
      case (Rejected e)
      with toggle_add_failed[OF out lt, of fg e] obtain m
        where "toggleVersion gt fg fd r s = s\<lparr>error := Some m\<rparr>" by blast
      with assms show ?thesis by (simp add: consistent_def overlay_keys_def)
    next
      case (NotOk st)
      with toggle_add_failed[OF out lt, of fg _ st] obtain m
        where "toggleVersion gt fg fd r s = s\<lparr>error := Some m\<rparr>" by blast
      with assms show ?thesis by (simp add: consistent_def overlay_keys_def)
    next
      case (Body feats)
      show ?thesis
      proof (cases "feats = []")
        case True
        with Body toggle_add_failed[OF out lt, of fg] obtain m
          where "toggleVersion gt fg fd r s = s\<lparr>error := Some m\<rparr>" by blast
        with assms show ?thesis by (simp add: consistent_def overlay_keys_def)
      next
        case False
        note ok = toggle_add_ok[where fg=fg, OF out lt Body False]
          toggle_add_overlay[where fg=fg, OF out lt Body False]
        from assms out lt show ?thesis
          by (auto simp: consistent_def ok)
      qed
    qed
  qed
qed

lemma consistent_step:
  assumes "consistent s"
  shows "consistent (step gt ns s a)"
proof (cases a)
  case (Toggle r fg fd)
  with assms show ?thesis by (simp add: consistent_toggle)
next
  case (Search ov fetch)
  with assms show ?thesis
    by (auto simp: consistent_def overlay_keys_def doSearch_def Let_def split: fetched.splits)
next
  case (MapClick x y fetch)
  with assms show ?thesis
    by (auto simp: consistent_def overlay_keys_def handleMapClick_def closePopup_def Let_def
          split: fetched.splits option.splits list.splits)
qed (use assms in \<open>auto simp: consistent_def overlay_keys_def clearSelections_def\<close>)

lemma consistent_run:
  "consistent s \<Longrightarrow> consistent (run gt ns acts s)"
  unfolding run_def by (induction acts arbitrary: s) (simp_all add: consistent_step)

lemma consistent_init: "consistent (init today)"
  by (simp add: consistent_def init_def overlay_keys_def)

lemma consistent_reachable: "consistent (run gt ns acts (init today))"
  by (rule consistent_run[OF consistent_init])

lemma COLORS_nth: "nth_opt COLORS 0 = Some (COLORS ! 0)" "nth_opt COLORS (Suc 0) = Some (COLORS ! 1)"
  by (simp_all add: nth_opt_def COLORS_def)

lemma COLORS_distinct: "COLORS ! 0 \<noteq> COLORS ! 1"
  by (simp add: COLORS_def lit_def)

lemma COLORS_take: "take 0 COLORS = []" "take (Suc 0) COLORS = [COLORS ! 0]"
  "take (Suc (Suc 0)) COLORS = [COLORS ! 0, COLORS ! 1]"
  by (simp_all add: COLORS_def)

lemma consistent_cases:
  assumes "consistent s"
  obtains (none) "selectedKeys s = []" "colorByKey s = Map.empty"
  | (one) a where "selectedKeys s = [a]" "colorByKey s = [a \<mapsto> COLORS ! 0]"
  | (two) a b where "a \<noteq> b" "selectedKeys s = [a, b]"
      "colorByKey s = [a \<mapsto> COLORS ! 0, b \<mapsto> COLORS ! 1]"
proof (cases "selectedKeys s")
  case Nil
  with assms none show ?thesis by (simp add: consistent_def)
next
  case (Cons a rest)
  note c1 = Cons
  show ?thesis
  proof (cases rest)
    case Nil
    with c1 assms one show ?thesis by (simp add: consistent_def COLORS_nth)
  next
    case (Cons b rest')
    with c1 assms have "rest' = []" "a \<noteq> b" by (auto simp: consistent_def)
    with c1 Cons assms two show ?thesis by (simp add: consistent_def COLORS_nth)
  qed
qed

section \<open>Two toggles of one row\<close>

lemma toggle_toggle_fresh:
  assumes c: "consistent s" and out: "version_key r \<notin> set (selectedKeys s)"
    and g: "fg (geometry_request r) = Body feats" "feats \<noteq> []"
  shows "selectedKeys (toggleVersion gt fg' fd' r (toggleVersion gt fg fd r s)) = selectedKeys s"
    and "colorByKey (toggleVersion gt fg' fd' r (toggleVersion gt fg fd r s)) = colorByKey s"
    and "overlay_keys (toggleVersion gt fg' fd' r (toggleVersion gt fg fd r s)) = overlay_keys s"
proof -
  let ?s1 = "toggleVersion gt fg fd r s"
  let ?s2 = "toggleVersion gt fg' fd' r ?s1"
  have "selectedKeys ?s2 = selectedKeys s \<and> colorByKey ?s2 = colorByKey s \<and>
        overlay_keys ?s2 = overlay_keys s"
  proof (cases "2 \<le> length (selectedKeys s)")
    case True
    then have 1: "?s1 = s\<lparr>toast := Some MaxTwoVersions\<rparr>"
      using out by (simp add: toggle_full)
    have "toggleVersion gt fg' fd' r (s\<lparr>toast := Some MaxTwoVersions\<rparr>) =
            s\<lparr>toast := Some MaxTwoVersions\<rparr>"
      using out True by (simp add: toggle_full)
    with 1 show ?thesis by (simp add: overlay_keys_def)
  next
    case False
    then have lt: "length (selectedKeys s) < 2" by simp
    note ok = toggle_add_ok[where fg = fg, OF out lt g] toggle_add_overlay[where fg = fg, OF out lt g]
    have sel: "version_key r \<in> set (selectedKeys ?s1)" by (simp add: ok)
    note rm = toggle_remove[OF sel] toggle_remove_overlay[OF sel]
    from out have f: "filter (\<lambda>x. x \<noteq> version_key r) (selectedKeys s) = selectedKeys s"
      by (auto simp: filter_id_conv)
    from c out have o: "version_key r \<notin> overlay_keys s" by (simp add: consistent_def)
    from c have col: "colorByKey s = assign_loop 0 (selectedKeys s) Map.empty"
      by (simp add: consistent_def)
    show ?thesis using o by (simp add: rm ok f col)
  qed
  then show "selectedKeys ?s2 = selectedKeys s" "colorByKey ?s2 = colorByKey s"
    "overlay_keys ?s2 = overlay_keys s" by blast+
qed

lemma toggle_toggle_last:
  assumes c: "consistent s" and l: "selectedKeys s \<noteq> []" "last (selectedKeys s) = version_key r"
    and g: "fg' (geometry_request r) = Body feats'" "feats' \<noteq> []"
  shows "selectedKeys (toggleVersion gt fg' fd' r (toggleVersion gt fg fd r s)) = selectedKeys s"
    and "colorByKey (toggleVersion gt fg' fd' r (toggleVersion gt fg fd r s)) = colorByKey s"
    and "overlay_keys (toggleVersion gt fg' fd' r (toggleVersion gt fg fd r s)) = overlay_keys s"
proof -
  let ?k = "version_key r"
  let ?s1 = "toggleVersion gt fg fd r s"
  let ?s2 = "toggleVersion gt fg' fd' r ?s1"
  from l have sel: "?k \<in> set (selectedKeys s)" by (metis last_in_set)
  note rm = toggle_remove[OF sel] toggle_remove_overlay[OF sel]
  from c l have again: "filter (\<lambda>x. x \<noteq> ?k) (selectedKeys s) @ [?k] = selectedKeys s"
    by (cases rule: consistent_cases) auto
  have out: "?k \<notin> set (selectedKeys ?s1)" by (simp add: rm)
  from c sel have lt: "length (selectedKeys ?s1) < 2"
    by (cases rule: consistent_cases) (auto simp: rm)
  note ok = toggle_add_ok[where fg = fg', OF out lt g] toggle_add_overlay[where fg = fg', OF out lt g]
  from c have col: "colorByKey s = assign_loop 0 (selectedKeys s) Map.empty"
    and ov: "overlay_keys s = set (selectedKeys s)"
    by (simp_all add: consistent_def)
  show "selectedKeys ?s2 = selectedKeys s" by (simp add: ok rm again)
  show "colorByKey ?s2 = colorByKey s" by (simp add: ok rm again col)
  show "overlay_keys ?s2 = overlay_keys s" using sel by (auto simp: ok rm ov)
qed

lemma toggle_toggle_first:
  assumes c: "consistent s" and l: "selectedKeys s = [version_key r, k]"
    and g: "fg' (geometry_request r) = Body feats'" "feats' \<noteq> []"
  shows "selectedKeys (toggleVersion gt fg' fd' r (toggleVersion gt fg fd r s)) = [k, version_key r]"
    and "colorByKey (toggleVersion gt fg' fd' r (toggleVersion gt fg fd r s)) k = Some (COLORS ! 0)"
    and "colorByKey (toggleVersion gt fg' fd' r (toggleVersion gt fg fd r s)) (version_key r) = Some (COLORS ! 1)"
proof -
  let ?k = "version_key r"
  let ?s1 = "toggleVersion gt fg fd r s"
  from c l have ne: "?k \<noteq> k" by (simp add: consistent_def)
  from l have sel: "?k \<in> set (selectedKeys s)" by simp
  note rm = toggle_remove[OF sel]
  from ne l have k1: "selectedKeys ?s1 = [k]" by (auto simp: rm)
  then have out: "?k \<notin> set (selectedKeys ?s1)" and lt: "length (selectedKeys ?s1) < 2"
    using ne by simp_all
  note ok = toggle_add_ok[where fg = fg', OF out lt g]
  show "selectedKeys (toggleVersion gt fg' fd' r ?s1) = [k, ?k]" by (simp add: ok k1)
  show "colorByKey (toggleVersion gt fg' fd' r ?s1) k = Some (COLORS ! 0)"
    using ne by (simp add: ok k1 COLORS_nth)
  show "colorByKey (toggleVersion gt fg' fd' r ?s1) ?k = Some (COLORS ! 1)"
    using ne by (simp add: ok k1 COLORS_nth)
qed

section \<open>The example selection\<close>

lemma example_keys:
  "version_key row_old = lit ''79501:027:0011|2019-01-01|2020-01-01''"
  "version_key row_mid = lit ''79501:027:0011|2019-01-01|2021-06-01''"
  "version_key row_active = lit ''79501:027:0011|2021-06-01|null''"
  by (simp_all add: version_key_def row_old_def row_mid_def row_active_def lit_def)

lemma example_keys_differ:
  "version_key row_old \<noteq> version_key row_active"
  "version_key row_old \<noteq> version_key row_mid"
  "version_key row_mid \<noteq> version_key row_active"
  "version_key row_active \<noteq> version_key row_old"
  "version_key row_mid \<noteq> version_key row_old"
  "version_key row_active \<noteq> version_key row_mid"
  by (simp_all add: example_keys lit_eq_iff)

lemma first_selected:
  "selectedKeys (toggleVersion ex_getTime geo_one det_all row_old (init [])) = [version_key row_old]"
  using toggle_add_ok(1)[where fg = geo_one and feats = "[7]" and r = row_old and s = "init []"
      and gt = ex_getTime and fd = det_all]
  by (simp add: init_def geo_one_def)

lemma two_selected_keys:
  "selectedKeys two_selected = [version_key row_old, version_key row_active]"
proof -
  have "two_selected = toggleVersion ex_getTime geo_one det_all row_active
          (toggleVersion ex_getTime geo_one det_all row_old (init []))"
    by (simp add: two_selected_def run_def)
  then show ?thesis
    using toggle_add_ok(1)[where fg = geo_one and feats = "[7]" and r = row_active
        and s = "toggleVersion ex_getTime geo_one det_all row_old (init [])"
        and gt = ex_getTime and fd = det_all]
    by (simp add: first_selected geo_one_def example_keys_differ)
qed

text \<open>
  The colour kept on the features of the overlay lags behind the table:
  \<^verbatim>\<open>assignColors\<close> runs before the new features enter the source, so the feature
  of the second selection carries no colour of its own, while the table gives its key
  the second palette colour.
\<close>

lemma first_selected_overlay:
  "vecSrc (toggleVersion ex_getTime geo_one det_all row_old (init [])) =
     [\<lparr>f_key = version_key row_old, f_color = None, f_geom = 7\<rparr>]"
  using toggle_add_ok(3)[where fg = geo_one and feats = "[7]" and r = row_old and s = "init []"
      and gt = ex_getTime and fd = det_all]
  by (simp add: init_def geo_one_def tagged_def)

lemma two_selected_overlay:
  "vecSrc two_selected =
     [\<lparr>f_key = version_key row_old, f_color = Some (lit ''#22c55e''), f_geom = 7\<rparr>,
      \<lparr>f_key = version_key row_active, f_color = None, f_geom = 7\<rparr>]"
proof -
  have "two_selected = toggleVersion ex_getTime geo_one det_all row_active
          (toggleVersion ex_getTime geo_one det_all row_old (init []))"
    by (simp add: two_selected_def run_def)
  then show ?thesis
    using toggle_add_ok(3)[where fg = geo_one and feats = "[7]" and r = row_active
        and s = "toggleVersion ex_getTime geo_one det_all row_old (init [])"
        and gt = ex_getTime and fd = det_all]
    by (simp add: first_selected first_selected_overlay geo_one_def example_keys_differ tagged_def
          push_color_def nth_opt_def COLORS_def example_keys lit_empty_iff lit_eq_iff)
qed

lemma two_selected_consistent: "consistent two_selected"
  unfolding two_selected_def by (rule consistent_reachable)

lemma two_selected_colors:
  "colorByKey two_selected (version_key row_old) = Some (lit ''#22c55e'')"
  "colorByKey two_selected (version_key row_active) = Some (lit ''#3b82f6'')"
  using two_selected_consistent
  by (simp_all add: consistent_def two_selected_keys nth_opt_def COLORS_def example_keys_differ)

section \<open>Sorting the listing\<close>















section \<open>The date of the first render: lemmas\<close>

text \<open>The year found is the year of the standard: it starts on or before the day, and
  the next year starts after it.\<close>

lemma year_down_le: "DayFromYear (year_down y d) \<le> d"
proof (induction y d rule: year_down.induct)
  case (1 y d)
  then show ?case by (subst year_down.simps) simp
qed

lemma year_up_spec:
  "DayFromYear y \<le> d \<Longrightarrow> DayFromYear (year_up y d) \<le> d \<and> d < DayFromYear (year_up y d + 1)"
proof (induction y d rule: year_up.induct)
  case (1 y d)
  then show ?case by (subst (1 2) year_up.simps) simp
qed

lemma YearFromTime_spec:
  "DayFromYear (YearFromTime t) \<le> Day t \<and> Day t < DayFromYear (YearFromTime t + 1)"
  unfolding YearFromTime_def by (rule year_up_spec[OF year_down_le])

text \<open>A time value is the sum of its day and its time within the day.\<close>

lemma parts_aux:
  fixes t q1 q2 q3 q4 r0 r1 r2 r3 :: int
  assumes "t = 1000 * q1 + r0" "q1 = 60 * q2 + r1" "q2 = 60 * q3 + r2" "q3 = 24 * q4 + r3"
  shows "q4 * 86400000 + (r3 * 3600000 + r2 * 60000 + r1 * 1000 + r0) = t"
  using assms by simp

lemma nested_div:
  fixes t :: int
  shows "t div 60000 = t div 1000 div 60" "t div 3600000 = t div 1000 div 60 div 60"
    "t div 86400000 = t div 1000 div 60 div 60 div 24"
proof -
  have "t div (1000 * 60) = t div 1000 div 60" by (rule zdiv_zmult2_eq) simp
  then show 1: "t div 60000 = t div 1000 div 60" by simp
  have "t div (60000 * 60) = t div 60000 div 60" by (rule zdiv_zmult2_eq) simp
  then show 2: "t div 3600000 = t div 1000 div 60 div 60" by (simp add: 1)
  have "t div (3600000 * 24) = t div 3600000 div 24" by (rule zdiv_zmult2_eq) simp
  then show "t div 86400000 = t div 1000 div 60 div 60 div 24" by (simp add: 2)
qed

lemma time_parts:
  "MakeDate (Day t) (MakeTime (HourFromTime t) (MinFromTime t) (SecFromTime t) (msFromTime t)) = t"
  unfolding MakeDate_def MakeTime_def Day_def HourFromTime_def MinFromTime_def SecFromTime_def
    msFromTime_def msPerDay_def nested_div
  by (rule parts_aux) (rule mult_div_mod_eq[symmetric])+

text \<open>
  Where the offset is a whole number of minutes and the zone gives the shifted local
  time the offset it gives now, the shift ends at the local time value, and the text is
  the local calendar date. The text always has ten code units, so it is never empty,
  and a date that is not empty goes into the filter of the listing query, of the point
  query and of the cadastre layer.
\<close>

lemma to_integer_exact: "to_integer (k * c) c = k" if "0 < c"
proof (cases "0 \<le> k * c")
  case True
  with that show ?thesis by (simp add: to_integer_def)
next
  case False
  have "(- k) * c div c = - k"
    by (rule nonzero_mult_div_cancel_right) (use that in simp)
  then have "(- (k * c)) div c = - k" by simp
  with False show ?thesis by (simp add: to_integer_def)
qed

lemma initial_asOf_stable:
  assumes whole: "60000 dvd LocalTZA now True"
    and stable: "LocalTZA (LocalTime LocalTZA now + LocalTZA now True) False = LocalTZA now True"
    and range: "\<bar>LocalTime LocalTZA now\<bar> \<le> 8640000000000000"
  shows "initial_asOf LocalTZA now = Some (take 10 (toISOString (LocalTime LocalTZA now)))"
proof -
  let ?t = "LocalTime LocalTZA now"
  from whole obtain k where k: "LocalTZA now True = 60000 * k" by (auto simp: dvd_def)
  have off: "now - ?t = - (60000 * k)" by (simp add: LocalTime_def k)
  have "MinFromTime ?t * 60000 - (now - ?t) = (MinFromTime ?t + k) * 60000"
    unfolding off by (simp add: algebra_simps)
  then have m: "to_integer (MinFromTime ?t * 60000 - (now - ?t)) 60000 = MinFromTime ?t + k"
    by (simp only: to_integer_exact)
  have "MakeDate (Day ?t) (MakeTime (HourFromTime ?t) (MinFromTime ?t + k) (SecFromTime ?t) (msFromTime ?t))
        = MakeDate (Day ?t) (MakeTime (HourFromTime ?t) (MinFromTime ?t) (SecFromTime ?t) (msFromTime ?t)) + 60000 * k"
    by (simp add: MakeDate_def MakeTime_def algebra_simps)
  then have d: "MakeDate (Day ?t) (MakeTime (HourFromTime ?t) (MinFromTime ?t + k) (SecFromTime ?t) (msFromTime ?t))
        = ?t + LocalTZA now True"
    by (simp only: time_parts k)
  have u: "UTC LocalTZA (?t + LocalTZA now True) = ?t"
    by (simp add: UTC_def stable)
  from range have c: "TimeClip ?t = Some ?t" by (simp add: TimeClip_def)
  show ?thesis
    unfolding initial_asOf_def Let_def m d u c by simp
qed

lemma iso_date_prefix:
  assumes "0 \<le> YearFromTime (LocalTime LocalTZA now)" "YearFromTime (LocalTime LocalTZA now) \<le> 9999"
  shows "take 10 (toISOString (LocalTime LocalTZA now)) = local_date_text LocalTZA now"
  using assms
  by (simp add: toISOString_def local_date_text_def Let_def year_text_def four_digits_def
        two_digits_def lit_def)

lemma initial_asOf_length:
  assumes "initial_asOf LocalTZA now = Some d"
  shows "length d = 10"
proof -
  have "10 \<le> length (toISOString u)" for u
    by (simp add: toISOString_def year_text_def four_digits_def two_digits_def three_digits_def lit_def)
  with assms show ?thesis
    by (auto simp: initial_asOf_def Let_def split: option.splits)
qed

lemma initial_asOf_local_date:
  assumes "60000 dvd LocalTZA now True"
    and "LocalTZA (LocalTime LocalTZA now + LocalTZA now True) False = LocalTZA now True"
    and "\<bar>LocalTime LocalTZA now\<bar> \<le> 8640000000000000"
    and "0 \<le> YearFromTime (LocalTime LocalTZA now)" "YearFromTime (LocalTime LocalTZA now) \<le> 9999"
  shows "initial_asOf LocalTZA now = Some (local_date_text LocalTZA now)"
  using initial_asOf_stable[OF assms(1,2,3)] iso_date_prefix[OF assms(4,5)] by simp

lemma date_constrains_queries:
  assumes "d \<noteq> []"
  shows "get_param ''CQL_FILTER'' (buildWfsUrl q (date_arg d)) =
           Some (lit ''tunnus = '' @ quoted (replace_quotes q) @ lit '' AND '' @ validity_predicate d)"
    and "get_param ''CQL_FILTER'' (buildWfsUrl_byPoint ns x y (date_arg d)) =
           Some (lit ''INTERSECTS(geom,SRID=3301;POINT('' @ ns x @ lit '' '' @ ns y @ lit ''))'' @
                 lit '' AND '' @ validity_predicate d)"
    and "cad_filter d = Some (validity_predicate d)"
  using assms by (simp_all add: buildWfsUrl_cql buildWfsUrl_byPoint_cql date_arg_def cad_filter_def)

lemma startup_constrained:
  assumes "startup LocalTZA now = Some (s :: 'g state)"
  shows "asOf s \<noteq> []" and "cad_filter (asOf s) = Some (validity_predicate (asOf s))"
proof -
  from assms obtain d where d: "initial_asOf LocalTZA now = Some d" "s = init d"
    by (auto simp: startup_def)
  from initial_asOf_length[OF d(1)] have "d \<noteq> []" by auto
  with d(2) show "asOf s \<noteq> []" by (simp add: init_def)
  then show "cad_filter (asOf s) = Some (validity_predicate (asOf s))"
    by (simp add: cad_filter_def)
qed

text \<open>The clock reading 2024-09-28T12:30:00Z in the zone of Auckland, step by step.\<close>

lemma DayFromYear_2024: "DayFromYear 2024 = 19723" "DayFromYear 2025 = 20089"
  by (simp_all add: DayFromYear_def)

lemma year_sep_2024:
  "YearFromTime 1727566200000 = 2024" "YearFromTime 1727569800000 = 2024"
proof -
  have a: "year_down 2024 19994 = 2024"
    by (subst year_down.simps) (simp add: DayFromYear_2024)
  have a': "year_down 2024 19995 = 2024"
    by (subst year_down.simps) (simp add: DayFromYear_2024)
  have b: "year_up 2024 19994 = 2024"
    by (subst year_up.simps) (simp add: DayFromYear_2024)
  have b': "year_up 2024 19995 = 2024"
    by (subst year_up.simps) (simp add: DayFromYear_2024)
  show "YearFromTime 1727566200000 = 2024"
    by (simp add: YearFromTime_def Day_def msPerDay_def a b)
  show "YearFromTime 1727569800000 = 2024"
    by (simp add: YearFromTime_def Day_def msPerDay_def a' b')
qed

lemma date_sep_28:
  "take 10 (toISOString 1727566200000) = lit ''2024-09-28''"
proof -
  have y: "YearFromTime 1727566200000 = 2024" by (rule year_sep_2024)
  have w: "DayWithinYear 1727566200000 = 271"
    by (simp add: DayWithinYear_def y Day_def msPerDay_def DayFromYear_2024)
  have l: "InLeapYear 1727566200000 = 1"
    by (simp add: InLeapYear_def y)
  have m: "MonthFromTime 1727566200000 = 8"
    by (simp add: MonthFromTime_def w l)
  have d: "DateFromTime 1727566200000 = 28"
    by (simp add: DateFromTime_def w l m)
  show ?thesis
    by (simp add: toISOString_def y m d year_text_def four_digits_def two_digits_def dec_digit_def lit_def)
qed

lemma date_sep_29:
  "local_date_text auckland_2024 1727526600000 = lit ''2024-09-29''"
proof -
  have t: "LocalTime auckland_2024 1727526600000 = 1727569800000"
    by (simp add: LocalTime_def auckland_2024_def)
  have y: "YearFromTime 1727569800000 = 2024" by (rule year_sep_2024)
  have w: "DayWithinYear 1727569800000 = 272"
    by (simp add: DayWithinYear_def y Day_def msPerDay_def DayFromYear_2024)
  have l: "InLeapYear 1727569800000 = 1"
    by (simp add: InLeapYear_def y)
  have m: "MonthFromTime 1727569800000 = 8"
    by (simp add: MonthFromTime_def w l)
  have d: "DateFromTime 1727569800000 = 29"
    by (simp add: DateFromTime_def w l m)
  show ?thesis
    by (simp add: local_date_text_def t y m d four_digits_def two_digits_def dec_digit_def lit_def)
qed

lemma shifted_instant:
  "initial_asOf auckland_2024 1727526600000 = Some (take 10 (toISOString 1727566200000))"
proof -
  have t: "LocalTime auckland_2024 1727526600000 = 1727569800000"
    by (simp add: LocalTime_def auckland_2024_def)
  have f: "MinFromTime 1727569800000 = 30" "HourFromTime 1727569800000 = 0"
    "SecFromTime 1727569800000 = 0" "msFromTime 1727569800000 = 0" "Day 1727569800000 = 19995"
    by (simp_all add: MinFromTime_def HourFromTime_def SecFromTime_def msFromTime_def Day_def msPerDay_def)
  have m: "to_integer (30 * 60000 - (1727526600000 - 1727569800000)) 60000 = 750"
    by (simp add: to_integer_def)
  have d: "MakeDate 19995 (MakeTime 0 750 0 0) = 1727613000000"
    by (simp add: MakeDate_def MakeTime_def msPerDay_def)
  have u: "UTC auckland_2024 1727613000000 = 1727566200000"
    by (simp add: UTC_def auckland_2024_def)
  have c: "TimeClip 1727566200000 = Some 1727566200000"
    by (simp add: TimeClip_def)
  show ?thesis
    unfolding initial_asOf_def Let_def t f m d u c by simp
qed

section \<open>Claims\<close>

text \<open>
  Claim C1, as amended. A toggle that would add a row (its key is not selected and
  fewer than two keys are) and whose geometry request fails, by a rejected promise, a
  status that is not a success, or a document without features, sets an error message
  and leaves the selected keys, the colour table, the overlay and the drawer as they
  were. When the geometry request succeeds and the request for all properties fails,
  the key has been appended, coloured by its position and its geometry stored already:
  an error message is set and only the drawer is left as it was.
\<close>

theorem toggle_add_failure:
  assumes "version_key r \<notin> set (selectedKeys s)" and "length (selectedKeys s) < 2"
  shows "(fg (geometry_request r) = Rejected e \<or> fg (geometry_request r) = NotOk st \<or>
          fg (geometry_request r) = Body [] \<longrightarrow>
            same_selection (toggleVersion gt fg fd r s) s \<and> error (toggleVersion gt fg fd r s) \<noteq> None) \<and>
         (fg (geometry_request r) = Body feats \<and> feats \<noteq> [] \<and>
          (fd (buildWfsUrl_allProps (tunnus r)) = Rejected e' \<or>
           fd (buildWfsUrl_allProps (tunnus r)) = NotOk st') \<longrightarrow>
            selectedKeys (toggleVersion gt fg fd r s) = selectedKeys s @ [version_key r] \<and>
            colorByKey (toggleVersion gt fg fd r s) (version_key r) = Some (COLORS ! length (selectedKeys s)) \<and>
            version_key r \<in> overlay_keys (toggleVersion gt fg fd r s) \<and>
            drawer (toggleVersion gt fg fd r s) = drawer s \<and>
            error (toggleVersion gt fg fd r s) \<noteq> None)"
proof (intro conjI impI)
  assume f: "fg (geometry_request r) = Rejected e \<or> fg (geometry_request r) = NotOk st \<or>
          fg (geometry_request r) = Body []"
  from toggle_add_failed[where fg = fg, OF assms f] obtain m
    where m: "toggleVersion gt fg fd r s = s\<lparr>error := Some m\<rparr>" by blast
  show "same_selection (toggleVersion gt fg fd r s) s" "error (toggleVersion gt fg fd r s) \<noteq> None"
    by (simp_all add: m same_selection_def)
next
  assume h: "fg (geometry_request r) = Body feats \<and> feats \<noteq> [] \<and>
          (fd (buildWfsUrl_allProps (tunnus r)) = Rejected e' \<or>
           fd (buildWfsUrl_allProps (tunnus r)) = NotOk st')"
  then have b: "fg (geometry_request r) = Body feats" and ne: "feats \<noteq> []"
    and d: "fd (buildWfsUrl_allProps (tunnus r)) = Rejected e' \<or>
           fd (buildWfsUrl_allProps (tunnus r)) = NotOk st'" by blast+
  note ok = toggle_add_ok[where fg = fg, OF assms b ne] toggle_add_overlay[where fg = fg, OF assms b ne]
  show "selectedKeys (toggleVersion gt fg fd r s) = selectedKeys s @ [version_key r]"
    by (rule ok(1))
  show "version_key r \<in> overlay_keys (toggleVersion gt fg fd r s)"
    by (simp add: ok)
  show "drawer (toggleVersion gt fg fd r s) = drawer s"
    by (rule toggle_add_partial(1)[where fg = fg and fd = fd, OF assms b ne d])
  show "error (toggleVersion gt fg fd r s) \<noteq> None"
    by (rule toggle_add_partial(2)[where fg = fg and fd = fd, OF assms b ne d])
  show "colorByKey (toggleVersion gt fg fd r s) (version_key r) = Some (COLORS ! length (selectedKeys s))"
  proof (cases "selectedKeys s")
    case Nil
    then show ?thesis by (simp add: ok COLORS_nth)
  next
    case (Cons a rest)
    with assms(2) have "rest = []" by simp
    with Cons assms(1) show ?thesis by (simp add: ok COLORS_nth)
  qed
qed

text \<open>
  Counterexample to claim C1 as it was stated. It fails when the second request fails: on the first render,
  with a geometry of one feature and status 500 for the properties, the key is selected
  and its feature is in the overlay after the error.
\<close>

theorem toggle_add_failure_counterexample:
  "selectedKeys (init [] :: nat state) = [] \<and>
   selectedKeys (toggleVersion ex_getTime geo_one det_down row_old (init [])) = [version_key row_old] \<and>
   vecSrc (toggleVersion ex_getTime geo_one det_down row_old (init [])) =
     [\<lparr>f_key = version_key row_old, f_color = None, f_geom = 7\<rparr>] \<and>
   error (toggleVersion ex_getTime geo_one det_down row_old (init [])) = Some (WfsError 500) \<and>
   \<not> same_selection (toggleVersion ex_getTime geo_one det_down row_old (init [])) (init [])"
  by (simp add: toggleVersion_def Let_def init_def geo_one_def det_down_def assignColors_def
        tagged_def same_selection_def)

theorem toggle_add_failure_witness:
  "same_selection (toggleVersion ex_getTime geo_down det_all row_old (init [])) (init []) \<and>
   same_selection (toggleVersion ex_getTime geo_none det_all row_old (init [])) (init []) \<and>
   selectedKeys (toggleVersion ex_getTime geo_one det_down row_old (init [])) = [version_key row_old] \<and>
   drawer (toggleVersion ex_getTime geo_one det_down row_old (init [])) = drawer_closed"
  using toggle_add_failure[where r = row_old and s = "init [] :: nat state" and fg = geo_down and st = 503
      and gt = ex_getTime and fd = det_all and feats = "[]" and e = OtherValue and e' = OtherValue and st' = 0]
    toggle_add_failure[where r = row_old and s = "init [] :: nat state" and fg = geo_none
      and gt = ex_getTime and fd = det_all and feats = "[]" and e = OtherValue and e' = OtherValue and st' = 0 and st = 0]
    toggle_add_failure[where r = row_old and s = "init [] :: nat state" and fg = geo_one and st' = 500
      and gt = ex_getTime and fd = det_down and feats = "[7]" and e = OtherValue and e' = OtherValue and st = 0]
  by (simp add: init_def geo_down_def geo_none_def geo_one_def det_down_def)

text \<open>
  Claim C2. The identifier and the two bounds of the validity interval pass through
  \<open>replace_quotes\<close> in every builder (the four lemmas on \<open>CQL_FILTER\<close> above), but
  the date of the listing query and of the point query does not: a date with a single
  quote reaches the filter as it is, and the filter differs from the one with the
  date escaped.
\<close>

theorem date_literal_not_escaped:
  "get_param ''CQL_FILTER'' (buildWfsUrl (lit ''79501:027:0011'') (Some (lit ''2024-01-01' OR '1'='1''))) =
     Some (lit ''tunnus = '79501:027:0011' AND kehtiv_alates <= '2024-01-01' OR '1'='1' AND (kehtiv_kuni IS NULL OR kehtiv_kuni > '2024-01-01' OR '1'='1')'') \<and>
   get_param ''CQL_FILTER'' (buildWfsUrl_byPoint ex_num_str 538000 6500000 (Some (lit ''2024-01-01' OR '1'='1''))) =
     Some (lit ''INTERSECTS(geom,SRID=3301;POINT(538000 6500000)) AND kehtiv_alates <= '2024-01-01' OR '1'='1' AND (kehtiv_kuni IS NULL OR kehtiv_kuni > '2024-01-01' OR '1'='1')'') \<and>
   get_param ''CQL_FILTER'' (buildWfsUrl (lit ''79501:027:0011'') (Some (lit ''2024-01-01' OR '1'='1''))) \<noteq>
     Some (lit ''tunnus = '79501:027:0011' AND '' @
           validity_predicate (replace_quotes (lit ''2024-01-01' OR '1'='1'')))"
  by (simp add: buildWfsUrl_cql buildWfsUrl_byPoint_cql validity_predicate_def quoted_def
        replace_quotes_def lit_def)

text \<open>
  Claim C3. After any finite sequence of actions from the first render the selection
  holds at most two keys; and a toggle of a row whose key is not selected, in a state
  with two selected keys, changes nothing but the toast, which it sets to the
  capacity message.
\<close>

theorem selection_at_most_two:
  "length (selectedKeys (run gt ns acts (init today))) \<le> 2 \<and>
   (version_key r \<notin> set (selectedKeys s) \<and> length (selectedKeys s) = 2 \<longrightarrow>
      toggleVersion gt fg fd r s = s\<lparr>toast := Some MaxTwoVersions\<rparr>)"
proof
  have "consistent (run gt ns acts (init today))" by (rule consistent_reachable)
  then show "length (selectedKeys (run gt ns acts (init today))) \<le> 2"
    by (simp add: consistent_def)
  show "version_key r \<notin> set (selectedKeys s) \<and> length (selectedKeys s) = 2 \<longrightarrow>
      toggleVersion gt fg fd r s = s\<lparr>toast := Some MaxTwoVersions\<rparr>"
    by (simp add: toggle_full)
qed

theorem selection_at_most_two_witness:
  "length (selectedKeys (run ex_getTime ex_num_str
      [Toggle row_old geo_one det_all, Toggle row_active geo_one det_all, Toggle row_mid geo_one det_all]
      (init []))) \<le> 2 \<and>
   length (selectedKeys two_selected) = 2 \<and>
   version_key row_mid \<notin> set (selectedKeys two_selected) \<and>
   toggleVersion ex_getTime geo_one det_all row_mid two_selected =
     two_selected\<lparr>toast := Some MaxTwoVersions\<rparr>"
  using selection_at_most_two[where r = row_mid and s = two_selected and gt = ex_getTime
      and fg = geo_one and fd = det_all and ns = ex_num_str and today = "[]"
      and acts = "[Toggle row_old geo_one det_all, Toggle row_active geo_one det_all, Toggle row_mid geo_one det_all]"]
  by (simp add: two_selected_keys example_keys_differ)

text \<open>
  Claim C4. In every state reached from the first render the colour table maps the
  selected keys, in their order, to the palette entries of the same positions: it is
  defined on exactly the selected keys and is a bijection onto the palette prefix of
  that length. In particular, removing the first of two selected keys leaves the other
  one selected with the first palette colour.
\<close>

theorem color_assignment:
  assumes "s = run gt ns acts (init today)"
  shows "(\<forall>i < length (selectedKeys s). colorByKey s (selectedKeys s ! i) = Some (COLORS ! i)) \<and>
         dom (colorByKey s) = set (selectedKeys s) \<and>
         bij_betw (\<lambda>k. the (colorByKey s k)) (set (selectedKeys s))
           (set (take (length (selectedKeys s)) COLORS)) \<and>
         (selectedKeys s = [k1, k2] \<and> version_key r = k1 \<longrightarrow>
            selectedKeys (toggleVersion gt fg fd r s) = [k2] \<and>
            colorByKey (toggleVersion gt fg fd r s) k2 = Some (COLORS ! 0))"
proof -
  from assms have c: "consistent s" by (simp add: consistent_reachable)
  have first: "(\<forall>i < length (selectedKeys s). colorByKey s (selectedKeys s ! i) = Some (COLORS ! i)) \<and>
         dom (colorByKey s) = set (selectedKeys s) \<and>
         bij_betw (\<lambda>k. the (colorByKey s k)) (set (selectedKeys s))
           (set (take (length (selectedKeys s)) COLORS))"
    using c
  proof (cases rule: consistent_cases)
    case none
    then show ?thesis by (simp add: COLORS_take bij_betw_def)
  next
    case (one a)
    then show ?thesis by (simp add: COLORS_take bij_betw_def)
  next
    case (two a b)
    then show ?thesis using COLORS_distinct
      by (auto simp: COLORS_take bij_betw_def less_Suc_eq numeral_2_eq_2)
  qed
  have second: "selectedKeys (toggleVersion gt fg fd r s) = [k2] \<and>
            colorByKey (toggleVersion gt fg fd r s) k2 = Some (COLORS ! 0)"
    if k: "selectedKeys s = [k1, k2]" "version_key r = k1"
  proof -
    from c k have ne: "k1 \<noteq> k2" by (simp add: consistent_def)
    from k have sel: "version_key r \<in> set (selectedKeys s)" by simp
    from toggle_remove(1,2)[OF sel, of gt fg fd] k ne show ?thesis
      by (auto simp: COLORS_nth)
  qed
  from first second show ?thesis by blast
qed

theorem color_assignment_witness:
  "colorByKey two_selected (version_key row_old) = Some (lit ''#22c55e'') \<and>
   colorByKey two_selected (version_key row_active) = Some (lit ''#3b82f6'') \<and>
   selectedKeys (toggleVersion ex_getTime geo_one det_all row_old two_selected) = [version_key row_active] \<and>
   colorByKey (toggleVersion ex_getTime geo_one det_all row_old two_selected) (version_key row_active)
     = Some (lit ''#22c55e'')"
proof -
  have r: "two_selected = run ex_getTime ex_num_str
      [Toggle row_old geo_one det_all, Toggle row_active geo_one det_all] (init [])"
    by (simp add: two_selected_def)
  note t = color_assignment[OF r, where ?k1.0 = "version_key row_old"
      and ?k2.0 = "version_key row_active" and r = row_old and fg = geo_one and fd = det_all]
  from t have a: "\<forall>i<2. colorByKey two_selected ([version_key row_old, version_key row_active] ! i) = Some (COLORS ! i)"
    by (simp add: two_selected_keys)
  from a[rule_format, of 0] a[rule_format, of 1] t show ?thesis
    by (simp add: two_selected_keys COLORS_def)
qed

text \<open>
  Claim C5, as amended. In a state reached from the first render, with the geometry
  requests of the add succeeding, two toggles of one row in a row give back the selected
  keys, the colour table and the keys of the overlay, provided the row's key was not
  selected or was the last selected key. When the row's key was the first of two
  selected keys, the two toggles move it to the second place, and the two keys exchange
  their colours.
\<close>

theorem toggle_twice:
  assumes "s = run gt ns acts (init today)"
    and "fg (geometry_request r) = Body feats" and "feats \<noteq> []"
    and "fg' (geometry_request r) = Body feats'" and "feats' \<noteq> []"
  shows "(version_key r \<notin> set (selectedKeys s) \<or>
          (selectedKeys s \<noteq> [] \<and> last (selectedKeys s) = version_key r) \<longrightarrow>
            selectedKeys (toggleVersion gt fg' fd' r (toggleVersion gt fg fd r s)) = selectedKeys s \<and>
            colorByKey (toggleVersion gt fg' fd' r (toggleVersion gt fg fd r s)) = colorByKey s \<and>
            overlay_keys (toggleVersion gt fg' fd' r (toggleVersion gt fg fd r s)) = overlay_keys s) \<and>
         (selectedKeys s = [version_key r, k] \<longrightarrow>
            selectedKeys (toggleVersion gt fg' fd' r (toggleVersion gt fg fd r s)) = [k, version_key r] \<and>
            colorByKey (toggleVersion gt fg' fd' r (toggleVersion gt fg fd r s)) k = Some (COLORS ! 0) \<and>
            colorByKey (toggleVersion gt fg' fd' r (toggleVersion gt fg fd r s)) (version_key r) = Some (COLORS ! 1))"
proof -
  from assms(1) have c: "consistent s" by (simp add: consistent_reachable)
  note fresh = toggle_toggle_fresh[where fg = fg, OF c _ assms(2,3)]
  note last = toggle_toggle_last[where fg' = fg', OF c _ _ assms(4,5)]
  note first = toggle_toggle_first[where fg' = fg', OF c _ assms(4,5)]
  show ?thesis
  proof (intro conjI impI)
    assume h: "version_key r \<notin> set (selectedKeys s) \<or>
          (selectedKeys s \<noteq> [] \<and> last (selectedKeys s) = version_key r)"
    then show "selectedKeys (toggleVersion gt fg' fd' r (toggleVersion gt fg fd r s)) = selectedKeys s"
      using fresh(1) last(1) by blast
    from h show "colorByKey (toggleVersion gt fg' fd' r (toggleVersion gt fg fd r s)) = colorByKey s"
      using fresh(2) last(2) by blast
    from h show "overlay_keys (toggleVersion gt fg' fd' r (toggleVersion gt fg fd r s)) = overlay_keys s"
      using fresh(3) last(3) by blast
  next
    assume h: "selectedKeys s = [version_key r, k]"
    show "selectedKeys (toggleVersion gt fg' fd' r (toggleVersion gt fg fd r s)) = [k, version_key r]"
      by (rule first(1)[OF h])
    show "colorByKey (toggleVersion gt fg' fd' r (toggleVersion gt fg fd r s)) k = Some (COLORS ! 0)"
      by (rule first(2)[OF h])
    show "colorByKey (toggleVersion gt fg' fd' r (toggleVersion gt fg fd r s)) (version_key r) = Some (COLORS ! 1)"
      by (rule first(3)[OF h])
  qed
qed

text \<open>
  Counterexample to claim C5 as it was stated. It fails for the first of two selected keys: toggling the
  older of the two selected versions twice puts it behind the active one and turns it
  from the first palette colour to the second.
\<close>

theorem toggle_twice_counterexample:
  "selectedKeys two_selected = [version_key row_old, version_key row_active] \<and>
   selectedKeys (toggleVersion ex_getTime geo_one det_all row_old
      (toggleVersion ex_getTime geo_one det_all row_old two_selected)) =
     [version_key row_active, version_key row_old] \<and>
   colorByKey two_selected (version_key row_old) = Some (lit ''#22c55e'') \<and>
   colorByKey (toggleVersion ex_getTime geo_one det_all row_old
      (toggleVersion ex_getTime geo_one det_all row_old two_selected)) (version_key row_old) =
     Some (lit ''#3b82f6'')"
proof -
  have g: "geo_one (geometry_request row_old) = Body [7]" "[7::nat] \<noteq> []"
    by (simp_all add: geo_one_def)
  note t = toggle_toggle_first[where fg' = geo_one and fg = geo_one and fd = det_all and fd' = det_all
      and gt = ex_getTime, OF two_selected_consistent two_selected_keys g]
  from t show ?thesis
    by (simp add: two_selected_keys two_selected_colors COLORS_def)
qed

theorem toggle_twice_witness:
  "selectedKeys (toggleVersion ex_getTime geo_one det_all row_active
      (toggleVersion ex_getTime geo_one det_all row_active two_selected)) = selectedKeys two_selected \<and>
   colorByKey (toggleVersion ex_getTime geo_one det_all row_active
      (toggleVersion ex_getTime geo_one det_all row_active two_selected)) = colorByKey two_selected \<and>
   overlay_keys (toggleVersion ex_getTime geo_one det_all row_active
      (toggleVersion ex_getTime geo_one det_all row_active two_selected)) = overlay_keys two_selected \<and>
   selectedKeys (toggleVersion ex_getTime geo_one det_all row_old
      (toggleVersion ex_getTime geo_one det_all row_old (init []))) = [] \<and>
   selectedKeys (toggleVersion ex_getTime geo_one det_all row_old
      (toggleVersion ex_getTime geo_one det_all row_old two_selected)) =
     [version_key row_active, version_key row_old]"
proof -
  have r: "two_selected = run ex_getTime ex_num_str
      [Toggle row_old geo_one det_all, Toggle row_active geo_one det_all] (init [])"
    by (simp add: two_selected_def)
  have r0: "(init [] :: nat state) = run ex_getTime ex_num_str [] (init [])"
    by (simp add: run_def)
  have ga: "geo_one (geometry_request row_active) = Body [7]" 
    and go: "geo_one (geometry_request row_old) = Body [7]" and ne: "[7::nat] \<noteq> []"
    by (simp_all add: geo_one_def)
  note a = toggle_twice[where fg = geo_one and fg' = geo_one and fd = det_all and fd' = det_all
      and k = "[]", OF r ga ne ga ne]
  note b = toggle_twice[where fg = geo_one and fg' = geo_one and fd = det_all and fd' = det_all
      and k = "[]", OF r0 go ne go ne]
  note c = toggle_twice[where fg = geo_one and fg' = geo_one and fd = det_all and fd' = det_all
      and k = "version_key row_active", OF r go ne go ne]
  from a b c show ?thesis
    by (simp add: two_selected_keys init_def)
qed




text \<open>
  Claim C7. With an absent or empty date the filter of the listing query is the
  identifier equality alone, and the filter of the point query is the
  \<^verbatim>\<open>INTERSECTS\<close> predicate alone: no validity predicate is added.
\<close>

theorem no_date_no_validity_predicate: 
  "get_param ''CQL_FILTER'' (buildWfsUrl t None) = Some (lit ''tunnus = '' @ quoted (replace_quotes t)) \<and>
   get_param ''CQL_FILTER'' (buildWfsUrl t (Some [])) = Some (lit ''tunnus = '' @ quoted (replace_quotes t)) \<and>
   get_param ''CQL_FILTER'' (buildWfsUrl_byPoint ns x y None) = Some (lit ''INTERSECTS(geom,SRID=3301;POINT('' @ ns x @ lit '' '' @ ns y @ lit ''))'') \<and>
   get_param ''CQL_FILTER'' (buildWfsUrl_byPoint ns x y (Some [])) = Some (lit ''INTERSECTS(geom,SRID=3301;POINT('' @ ns x @ lit '' '' @ ns y @ lit ''))'')"
  by (simp add: buildWfsUrl_cql buildWfsUrl_byPoint_cql)

text \<open>
  Claim C8. A map click changes nothing but the popup: the popup holds the identifier
  of the first feature when the point query returns one, and nothing when the document
  has no feature, the status is not a success or the promise is rejected. No error
  message and no toast is set, and the selection is as it was.
\<close>

theorem map_click_identifies:
  "handleMapClick ns fetch x y s =
     s\<lparr>popupData :=
         (case fetch (buildWfsUrl_byPoint ns x y (date_arg (asOf s))) of
            Body json \<Rightarrow>
              (case features json of Some (feat # rest) \<Rightarrow> Some (tunnus (properties feat)) | _ \<Rightarrow> None)
          | _ \<Rightarrow> None)\<rparr> \<and>
   error (handleMapClick ns fetch x y s) = error s \<and>
   toast (handleMapClick ns fetch x y s) = toast s \<and>
   same_selection (handleMapClick ns fetch x y s) s"
  by (simp add: handleMapClick_def closePopup_def same_selection_def Let_def
        split: fetched.splits option.splits list.splits)

theorem map_click_identifies_witness:
  "popupData (handleMapClick ex_num_str point_hit 538000 6500000 two_selected) = Some (lit ''79501:027:0011'') \<and>
   popupData (handleMapClick ex_num_str point_miss 538000 6500000 two_selected) = None \<and>
   popupData (handleMapClick ex_num_str det_down 538000 6500000 two_selected) = None \<and>
   popupData (handleMapClick ex_num_str det_unreachable 538000 6500000 two_selected) = None \<and>
   error (handleMapClick ex_num_str det_unreachable 538000 6500000 two_selected) = error two_selected \<and>
   selectedKeys (handleMapClick ex_num_str det_unreachable 538000 6500000 two_selected) =
     [version_key row_old, version_key row_active]"
  using map_click_identifies[where ns = ex_num_str and fetch = point_hit and x = 538000 and y = 6500000 and s = two_selected]
    map_click_identifies[where ns = ex_num_str and fetch = point_miss and x = 538000 and y = 6500000 and s = two_selected]
    map_click_identifies[where ns = ex_num_str and fetch = det_down and x = 538000 and y = 6500000 and s = two_selected]
    map_click_identifies[where ns = ex_num_str and fetch = det_unreachable and x = 538000 and y = 6500000 and s = two_selected]
  by (simp add: point_hit_def point_miss_def det_down_def det_unreachable_def row_old_def
        same_selection_def two_selected_keys)

text \<open>
  Claim C9. The check that gates the search accepts exactly the strings that, once
  trimmed, have the shape \<^verbatim>\<open>NNNNN:NNN:NNNN\<close>; it is a total function, it rejects the
  empty string, and a rejected input ends the search with the invalid-identifier
  message and no rows, whatever the service would have answered.
\<close>

theorem tunnus_validation:
  "(TUNNUS_RE_test (trim s) \<longleftrightarrow> tunnus_pattern (trim s)) \<and>
   \<not> TUNNUS_RE_test (trim []) \<and>
   (\<not> tunnus_pattern (trim (case ov of Some t \<Rightarrow> t | None \<Rightarrow> searchTerm st)) \<longrightarrow>
      doSearch getTime fetch ov st = st\<lparr>error := Some InvalidTunnus, rows := []\<rparr>) \<and>
   (tunnus_pattern (trim (case ov of Some t \<Rightarrow> t | None \<Rightarrow> searchTerm st)) \<longrightarrow>
      error (doSearch getTime fetch ov st) \<noteq> Some InvalidTunnus)"
proof (intro conjI impI)
  show "TUNNUS_RE_test (trim s) \<longleftrightarrow> tunnus_pattern (trim s)" by (rule TUNNUS_RE_test_pattern)
  show "\<not> TUNNUS_RE_test (trim [])" by (simp add: trim_empty TUNNUS_RE_test_pattern tunnus_pattern_def)
next
  assume "\<not> tunnus_pattern (trim (case ov of Some t \<Rightarrow> t | None \<Rightarrow> searchTerm st))"
  then show "doSearch getTime fetch ov st = st\<lparr>error := Some InvalidTunnus, rows := []\<rparr>"
    by (simp add: doSearch_def Let_def TUNNUS_RE_test_pattern)
next
  assume "tunnus_pattern (trim (case ov of Some t \<Rightarrow> t | None \<Rightarrow> searchTerm st))"
  then show "error (doSearch getTime fetch ov st) \<noteq> Some InvalidTunnus"
    by (cases "fetch (buildWfsUrl (trim (case ov of Some t \<Rightarrow> t | None \<Rightarrow> searchTerm st)) (date_arg (asOf st)))")
       (simp_all add: doSearch_def Let_def TUNNUS_RE_test_pattern caught_not_invalid)
qed

theorem tunnus_validation_witness:
  "tunnus_pattern (trim (lit '' 79501:027:0011 '')) \<and>
   \<not> tunnus_pattern (trim (lit ''79501:27:0011'')) \<and>
   doSearch ex_getTime det_all (Some (lit ''79501:27:0011'')) (init [] :: nat state) =
     (init [])\<lparr>error := Some InvalidTunnus, rows := []\<rparr>"
proof -
  have ta: "trim (lit '' 79501:027:0011 '') = lit ''79501:027:0011''"
    by (simp add: trim_def lit_def is_js_space_def)
  have tb: "trim (lit ''79501:27:0011'') = lit ''79501:27:0011''"
    by (simp add: trim_def lit_def is_js_space_def)
  have a: "TUNNUS_RE_test (trim (lit '' 79501:027:0011 ''))"
    unfolding ta by (simp add: TUNNUS_RE_test_def TUNNUS_RE_def lit_def numeral_eq_Suc)
  have b: "\<not> TUNNUS_RE_test (trim (lit ''79501:27:0011''))"
    unfolding tb by (simp add: TUNNUS_RE_test_def TUNNUS_RE_def lit_def numeral_eq_Suc)
  from a have 1: "tunnus_pattern (trim (lit '' 79501:027:0011 ''))"
    using tunnus_validation[where s = "lit '' 79501:027:0011 ''" and ov = None
        and st = "init [] :: nat state" and getTime = ex_getTime and fetch = det_all]
    by blast
  note t = tunnus_validation[where s = "lit ''79501:27:0011''" and ov = "Some (lit ''79501:27:0011'')"
        and st = "init [] :: nat state" and getTime = ex_getTime and fetch = det_all]
  from b t have 2: "\<not> tunnus_pattern (trim (lit ''79501:27:0011''))"
    by blast
  with t have 3: "doSearch ex_getTime det_all (Some (lit ''79501:27:0011'')) (init [] :: nat state) =
     (init [])\<lparr>error := Some InvalidTunnus, rows := []\<rparr>"
    by simp
  from 1 2 3 show ?thesis by blast
qed

text \<open>
  Claim C10. The first value of the date is meant to be the local calendar date, and it
  is never empty. It is the local date where the zone gives the shifted local time the
  offset it gives now (\<open>initial_asOf_local_date\<close>), but not always: in the zone of
  Auckland, at 00:30 local time on 2024-09-29, an hour and a half before the clocks go
  forward, \<^verbatim>\<open>setMinutes\<close> reads the shifted local time 12:30 with the new offset
  and the date becomes the day before.
\<close>

theorem initial_asOf_before_clock_change:
  "initial_asOf auckland_2024 1727526600000 = Some (lit ''2024-09-28'') \<and>
   local_date_text auckland_2024 1727526600000 = lit ''2024-09-29''"
  by (simp add: shifted_instant date_sep_28 date_sep_29)

end
